theory Spec2Isabelle
  imports Complex_Main
begin

section \<open>Image thresholding (tfjs-core/src/ops/image/threshold.ts)\<close>

text \<open>
  A shallow embedding of \<^verbatim>\<open>threshold_\<close> and \<^verbatim>\<open>otsu\<close>. The tensor operations the file
  imports (\<^verbatim>\<open>mul\<close>, \<^verbatim>\<open>add\<close>, \<^verbatim>\<open>greater\<close>, \<^verbatim>\<open>bincount\<close>, ...) live in other files of the
  library; they are modelled here from the specification's collaborator contract, with
  the arithmetic of the library's plain JavaScript backend, and carry the prefix \<open>tf_\<close>.
  The functions of threshold.ts keep their names.
\<close>

subsection \<open>Numbers\<close>

text \<open>
  A number is not-a-number, an infinity or a finite value, held as a rational. A
  floating-point array of the library stores float32 values: every value written into it
  is rounded to the nearest float32, ties to even, with gradual underflow and overflow to
  infinity. A JavaScript number is a double, rounded the same way with 53 bits. The sign
  of zero is not modelled: no comparison sees it, and the only divisors of the thresholder
  are sums, which start from positive zero, and the pixel count.
\<close>

datatype number = NaN | NInf | Fin rat | PInf

text \<open>\<open>pow2 e\<close> is \<open>2^e\<close> for an integer \<open>e\<close>; \<open>expo a\<close> is the exponent of a positive
  \<open>a\<close>, the \<open>e\<close> with \<open>2^e \<le> a < 2^(e+1)\<close>.\<close>

definition pow2 :: "int \<Rightarrow> rat" where
  "pow2 e = (if 0 \<le> e then 2 ^ nat e else 1 / 2 ^ nat (- e))"

function expo :: "rat \<Rightarrow> int" where
  "expo a =
     (if a \<le> 0 then 0
      else if 2 \<le> a then expo (a / 2) + 1
      else if a < 1 then expo (a * 2) - 1
      else 0)"
  by pat_completeness auto
termination
proof (relation "measure (\<lambda>a. if 1 \<le> a then nat \<lfloor>a\<rfloor> else nat \<lceil>1 / a\<rceil> + 1)")
  show "wf (measure (\<lambda>a::rat. if 1 \<le> a then nat \<lfloor>a\<rfloor> else nat \<lceil>1 / a\<rceil> + 1))" by simp
next
  fix a :: rat
  assume "\<not> a \<le> 0" and a2: "2 \<le> a"
  have "\<lfloor>a / 2\<rfloor> \<le> \<lfloor>a - 1\<rfloor>" using a2 by (intro floor_mono) simp
  then have "\<lfloor>a / 2\<rfloor> < \<lfloor>a\<rfloor>" by simp
  moreover have "0 < \<lfloor>a\<rfloor>" using a2 by simp
  ultimately show "(a / 2, a) \<in> measure (\<lambda>a. if 1 \<le> a then nat \<lfloor>a\<rfloor> else nat \<lceil>1 / a\<rceil> + 1)"
    using a2 by simp
next
  fix a :: rat
  assume pos: "\<not> a \<le> 0" and "\<not> 2 \<le> a" and a1: "a < 1"
  from pos have p: "0 < a" by simp
  with a1 have inv: "1 < 1 / a" by simp
  then have c2: "2 \<le> \<lceil>1 / a\<rceil>" by linarith
  show "(a * 2, a) \<in> measure (\<lambda>a. if 1 \<le> a then nat \<lfloor>a\<rfloor> else nat \<lceil>1 / a\<rceil> + 1)"
  proof (cases "1 \<le> a * 2")
    case True
    have "a * 2 < of_int 2" using a1 by simp
    then have "\<lfloor>a * 2\<rfloor> < 2" by (simp only: floor_less_iff)
    then have "nat \<lfloor>a * 2\<rfloor> \<le> 1" by linarith
    moreover from c2 have "2 \<le> nat \<lceil>1 / a\<rceil>" by linarith
    ultimately have "nat \<lfloor>a * 2\<rfloor> < nat \<lceil>1 / a\<rceil> + 1" by linarith
    then show ?thesis using True a1 by simp
  next
    case False
    then have "2 < 1 / a" using p by (simp add: field_simps)
    then have "1 / (a * 2) \<le> 1 / a - 1" using p by (simp add: field_simps)
    then have "\<lceil>1 / (a * 2)\<rceil> \<le> \<lceil>1 / a - 1\<rceil>" by (rule ceiling_mono)
    then have "\<lceil>1 / (a * 2)\<rceil> < \<lceil>1 / a\<rceil>" by simp
    then have "nat \<lceil>1 / (a * 2)\<rceil> + 1 < nat \<lceil>1 / a\<rceil> + 1" using c2 by linarith
    then show ?thesis using False a1 by simp
  qed
qed

declare expo.simps [simp del]

text \<open>Rounding to the nearest integer, a tie going to the even neighbour.\<close>

definition round_half_even :: "rat \<Rightarrow> int" where
  "round_half_even x =
     (let base = \<lfloor>x\<rfloor>; d = x - of_int base
      in if d < 1/2 then base
         else if 1/2 < d then base + 1
         else if even base then base else base + 1)"

text \<open>Rounding to a binary floating-point format of precision \<open>p\<close> whose normal
  exponents run from \<open>emin\<close> to \<open>emax\<close>.\<close>

definition round_float :: "nat \<Rightarrow> int \<Rightarrow> int \<Rightarrow> rat \<Rightarrow> number" where
  "round_float p emin emax q =
     (if q = 0 then Fin 0
      else let a = \<bar>q\<bar>;
               e = max (expo a) emin;
               u = pow2 (e - (int p - 1));
               r = of_int (round_half_even (a / u)) * u
           in if pow2 (emax + 1) \<le> r then (if 0 < q then PInf else NInf)
              else Fin (if 0 < q then r else - r))"

definition f32 :: "rat \<Rightarrow> number" where
  "f32 q = round_float 24 (- 126) 127 q"

definition f64 :: "rat \<Rightarrow> number" where
  "f64 q = round_float 53 (- 1022) 1023 q"

fun to_f32 :: "number \<Rightarrow> number" where
  "to_f32 (Fin q) = f32 q"
| "to_f32 x = x"

fun to_f64 :: "number \<Rightarrow> number" where
  "to_f64 (Fin q) = f64 q"
| "to_f64 x = x"

text \<open>The exact operations, with the special values of the language: \<open>0/0\<close> and
  \<open>inf - inf\<close> are \<open>NaN\<close>, \<open>x/0\<close> is infinite.\<close>

fun num_neg :: "number \<Rightarrow> number" where
  "num_neg NaN = NaN"
| "num_neg NInf = PInf"
| "num_neg PInf = NInf"
| "num_neg (Fin a) = Fin (- a)"

fun exact_add :: "number \<Rightarrow> number \<Rightarrow> number" where
  "exact_add NaN y = NaN"
| "exact_add x NaN = NaN"
| "exact_add (Fin a) (Fin b) = Fin (a + b)"
| "exact_add PInf NInf = NaN"
| "exact_add NInf PInf = NaN"
| "exact_add PInf y = PInf"
| "exact_add x PInf = PInf"
| "exact_add NInf y = NInf"
| "exact_add x NInf = NInf"

fun exact_mul :: "number \<Rightarrow> number \<Rightarrow> number" where
  "exact_mul NaN y = NaN"
| "exact_mul x NaN = NaN"
| "exact_mul (Fin a) (Fin b) = Fin (a * b)"
| "exact_mul PInf PInf = PInf"
| "exact_mul NInf NInf = PInf"
| "exact_mul PInf NInf = NInf"
| "exact_mul NInf PInf = NInf"
| "exact_mul PInf (Fin b) = (if b = 0 then NaN else if 0 < b then PInf else NInf)"
| "exact_mul NInf (Fin b) = (if b = 0 then NaN else if 0 < b then NInf else PInf)"
| "exact_mul (Fin a) PInf = (if a = 0 then NaN else if 0 < a then PInf else NInf)"
| "exact_mul (Fin a) NInf = (if a = 0 then NaN else if 0 < a then NInf else PInf)"

fun exact_div :: "number \<Rightarrow> number \<Rightarrow> number" where
  "exact_div NaN y = NaN"
| "exact_div x NaN = NaN"
| "exact_div (Fin a) (Fin b) =
     (if b = 0 then (if a = 0 then NaN else if 0 < a then PInf else NInf)
      else Fin (a / b))"
| "exact_div (Fin a) y = Fin 0"
| "exact_div PInf (Fin b) = (if 0 \<le> b then PInf else NInf)"
| "exact_div NInf (Fin b) = (if 0 \<le> b then NInf else PInf)"
| "exact_div x y = NaN"

text \<open>The float32 operations on float32 values: the exact result, rounded.\<close>

definition num_add :: "number \<Rightarrow> number \<Rightarrow> number" where
  "num_add x y = to_f32 (exact_add x y)"

definition num_sub :: "number \<Rightarrow> number \<Rightarrow> number" where
  "num_sub x y = to_f32 (exact_add x (num_neg y))"

definition num_mul :: "number \<Rightarrow> number \<Rightarrow> number" where
  "num_mul x y = to_f32 (exact_mul x y)"

definition num_div :: "number \<Rightarrow> number \<Rightarrow> number" where
  "num_div x y = to_f32 (exact_div x y)"

text \<open>The addition of two JavaScript numbers (\<^verbatim>\<open>sum += v\<close>).\<close>

definition add64 :: "number \<Rightarrow> number \<Rightarrow> number" where
  "add64 x y = to_f64 (exact_add x y)"

fun num_greater :: "number \<Rightarrow> number \<Rightarrow> bool" where
  "num_greater NaN y = False"
| "num_greater x NaN = False"
| "num_greater (Fin a) (Fin b) = (b < a)"
| "num_greater NInf y = False"
| "num_greater x NInf = True"
| "num_greater x PInf = False"
| "num_greater PInf y = True"

fun num_lessEqual :: "number \<Rightarrow> number \<Rightarrow> bool" where
  "num_lessEqual NaN y = False"
| "num_lessEqual x NaN = False"
| "num_lessEqual (Fin a) (Fin b) = (a \<le> b)"
| "num_lessEqual NInf y = True"
| "num_lessEqual x PInf = True"
| "num_lessEqual x NInf = False"
| "num_lessEqual PInf y = False"

text \<open>Modelled from the spec: the rounding of \<^verbatim>\<open>round\<close> (round.ts is not part of the
  excerpt), to the nearest integer. The specification does not say where a tie goes; in
  the library it goes to the even neighbour.\<close>

fun num_round :: "number \<Rightarrow> number" where
  "num_round (Fin a) = Fin (of_int (round_half_even a))"
| "num_round x = x"

text \<open>Modelled from the spec: the conversion of \<^verbatim>\<open>cast\<close> to a 32-bit integer (cast.ts
  is not part of the excerpt). The specification does not say what happens to a fraction
  or outside the range; in the library the value is stored into an \<^verbatim>\<open>Int32Array\<close>: the
  fraction is dropped, the value wraps modulo \<open>2^32\<close>, and \<open>NaN\<close> and the infinities
  become 0.\<close>

fun num_toInt32 :: "number \<Rightarrow> number" where
  "num_toInt32 (Fin a) =
     (let t = (if 0 \<le> a then \<lfloor>a\<rfloor> else \<lceil>a\<rceil>)
      in Fin (of_int ((t + 2 ^ 31) mod 2 ^ 32 - 2 ^ 31)))"
| "num_toInt32 x = Fin 0"

definition num_of_bool :: "bool \<Rightarrow> number" where
  "num_of_bool c = (if c then Fin 1 else Fin 0)"

subsection \<open>Tensors and the array library\<close>

datatype dtype = float32 | int32 | bool_t | complex64 | string_t

record tensor =
  shape :: "nat list"
  dtype :: dtype
  vals :: "number list"

text \<open>A tensor of the library holds as many values as its shape says.\<close>

definition wf_tensor :: "tensor \<Rightarrow> bool" where
  "wf_tensor t = (length (vals t) = prod_list (shape t))"

text \<open>\<^verbatim>\<open>t.shape[i]\<close>: \<open>None\<close> is JavaScript's \<^verbatim>\<open>undefined\<close> of a read past the end.\<close>

definition extent :: "nat list \<Rightarrow> nat \<Rightarrow> nat option" where
  "extent s i = (if i < length s then Some (s ! i) else None)"

definition tsize :: "tensor \<Rightarrow> nat" where
  "tsize t = prod_list (shape t)"

text \<open>A rank-1 floating-point array holding the one value \<open>v\<close>, and a rank-0 one.\<close>

definition vec1 :: "number \<Rightarrow> tensor" where
  "vec1 v = \<lparr>shape = [1], dtype = float32, vals = [v]\<rparr>"

definition scalar0 :: "number \<Rightarrow> tensor" where
  "scalar0 v = \<lparr>shape = [], dtype = float32, vals = [v]\<rparr>"

text \<open>Modelled from the spec: \<^verbatim>\<open>tensor1d\<close> of the array library (tensor1d.ts is not part
  of the excerpt): a rank-1 floating-point array of the given numbers, each stored as a
  float32.\<close>

definition tf_tensor1d :: "number list \<Rightarrow> tensor" where
  "tf_tensor1d xs = \<lparr>shape = [length xs], dtype = float32, vals = map to_f32 xs\<rparr>"

text \<open>Modelled from the spec: a plain number passed where the library expects an array
  (\<^verbatim>\<open>convertToTensor\<close>, not part of the excerpt) is a rank-0 floating-point array.\<close>

definition tf_scalar :: "number \<Rightarrow> tensor" where
  "tf_scalar x = \<lparr>shape = [], dtype = float32, vals = [to_f32 x]\<rparr>"

text \<open>Modelled from the spec: the result type of an elementwise operation on two arrays
  (the library's type promotion, not part of the excerpt), and the conversion of an
  operand to it: an integer or boolean value that meets a floating-point operand is
  stored as a float32.\<close>

definition upcastType :: "dtype \<Rightarrow> dtype \<Rightarrow> dtype" where
  "upcastType a b =
     (if a = float32 \<or> b = float32 then float32
      else if a = int32 \<or> b = int32 then int32 else bool_t)"

definition conv :: "dtype \<Rightarrow> dtype \<Rightarrow> number \<Rightarrow> number" where
  "conv rt d v = (if rt = float32 \<and> d \<noteq> float32 then to_f32 v else v)"

text \<open>Modelled from the spec: broadcasting of the library's elementwise operations (not
  part of the excerpt). Shapes are aligned at the last axis; an axis of extent 1 follows
  the other operand. The thresholder only combines arrays of equal shape or an array with
  a single-element one, and only these two cases are modelled for the values.\<close>

fun bshape_rev :: "nat list \<Rightarrow> nat list \<Rightarrow> nat list" where
  "bshape_rev [] ys = ys"
| "bshape_rev xs [] = xs"
| "bshape_rev (x # xs) (y # ys) = (if x = 1 then y else x) # bshape_rev xs ys"

definition broadcast_shape :: "nat list \<Rightarrow> nat list \<Rightarrow> nat list" where
  "broadcast_shape s t = rev (bshape_rev (rev s) (rev t))"

definition bsize :: "nat \<Rightarrow> nat \<Rightarrow> nat" where
  "bsize m n = (if n = 1 then m else if m = 1 then n else min m n)"

definition expand :: "nat \<Rightarrow> number list \<Rightarrow> number list" where
  "expand n xs = (case xs of [x] \<Rightarrow> replicate n x | _ \<Rightarrow> xs)"

definition binop :: "(number \<Rightarrow> number \<Rightarrow> 'a) \<Rightarrow> tensor \<Rightarrow> tensor \<Rightarrow> 'a list" where
  "binop f a b =
     (let n = bsize (length (vals a)) (length (vals b));
          rt = upcastType (dtype a) (dtype b)
      in map (\<lambda>(x, y). f (conv rt (dtype a) x) (conv rt (dtype b) y))
           (zip (expand n (vals a)) (expand n (vals b))))"

text \<open>Modelled from the spec: elementwise add, sub, mul, div of the array library (add.ts,
  sub.ts, mul.ts, div.ts are not part of the excerpt). In every call of the thresholder
  one operand is floating-point, so the operation is the float32 one; the library's
  integer arithmetic on two integer arrays does not occur and is not modelled.\<close>

definition tf_add :: "tensor \<Rightarrow> tensor \<Rightarrow> tensor" where
  "tf_add a b = \<lparr>shape = broadcast_shape (shape a) (shape b),
                 dtype = upcastType (dtype a) (dtype b), vals = binop num_add a b\<rparr>"

definition tf_sub :: "tensor \<Rightarrow> tensor \<Rightarrow> tensor" where
  "tf_sub a b = \<lparr>shape = broadcast_shape (shape a) (shape b),
                 dtype = upcastType (dtype a) (dtype b), vals = binop num_sub a b\<rparr>"

definition tf_mul :: "tensor \<Rightarrow> tensor \<Rightarrow> tensor" where
  "tf_mul a b = \<lparr>shape = broadcast_shape (shape a) (shape b),
                 dtype = upcastType (dtype a) (dtype b), vals = binop num_mul a b\<rparr>"

definition tf_div :: "tensor \<Rightarrow> tensor \<Rightarrow> tensor" where
  "tf_div a b = \<lparr>shape = broadcast_shape (shape a) (shape b),
                 dtype = upcastType (dtype a) (dtype b), vals = binop num_div a b\<rparr>"

text \<open>Modelled from the spec: the comparison operations of the array library (greater.ts,
  less_equal.ts are not part of the excerpt). The operands are brought to their common
  type first. A boolean array holds 1 for true and 0 for false.\<close>

definition tf_greater :: "tensor \<Rightarrow> tensor \<Rightarrow> tensor" where
  "tf_greater a b = \<lparr>shape = broadcast_shape (shape a) (shape b), dtype = bool_t,
                     vals = binop (\<lambda>x y. num_of_bool (num_greater x y)) a b\<rparr>"

definition tf_lessEqual :: "tensor \<Rightarrow> tensor \<Rightarrow> tensor" where
  "tf_lessEqual a b = \<lparr>shape = broadcast_shape (shape a) (shape b), dtype = bool_t,
                       vals = binop (\<lambda>x y. num_of_bool (num_lessEqual x y)) a b\<rparr>"

text \<open>Modelled from the spec: elementwise selection (where.ts is not part of the
  excerpt): the value of \<open>a\<close> where the condition is 1, of \<open>b\<close> elsewhere.\<close>

definition tf_where :: "tensor \<Rightarrow> tensor \<Rightarrow> tensor \<Rightarrow> tensor" where
  "tf_where c a b =
     (let n = bsize (bsize (length (vals c)) (length (vals a))) (length (vals b));
          rt = upcastType (dtype a) (dtype b)
      in \<lparr>shape = broadcast_shape (broadcast_shape (shape c) (shape a)) (shape b),
          dtype = rt,
          vals = map (\<lambda>(k, x, y). if k = Fin 1 then conv rt (dtype a) x
                                   else conv rt (dtype b) y)
                   (zip (expand n (vals c)) (zip (expand n (vals a)) (expand n (vals b))))\<rparr>)"

text \<open>Modelled from the spec: type casting and rounding (cast.ts, round.ts are not part
  of the excerpt).\<close>

definition tf_cast :: "tensor \<Rightarrow> dtype \<Rightarrow> tensor" where
  "tf_cast x d =
     x\<lparr>dtype := d,
       vals := (if d = int32 then map num_toInt32 (vals x)
                else if d = bool_t then map (\<lambda>v. num_of_bool (v \<noteq> Fin 0)) (vals x)
                else map (conv d (dtype x)) (vals x))\<rparr>"

definition tf_round :: "tensor \<Rightarrow> tensor" where
  "tf_round x = x\<lparr>vals := map num_round (vals x)\<rparr>"

text \<open>Modelled from the spec: the sum of all values, a rank-0 array (sum.ts is not part
  of the excerpt). The library adds the values up as JavaScript numbers, starting from 0,
  and stores the total into the result, which is floating-point for a floating-point
  array and integer otherwise.\<close>

definition tf_sum :: "tensor \<Rightarrow> tensor" where
  "tf_sum x =
     (let total = foldl add64 (Fin 0) (vals x)
      in if dtype x = float32
         then \<lparr>shape = [], dtype = float32, vals = [to_f32 total]\<rparr>
         else \<lparr>shape = [], dtype = int32, vals = [num_toInt32 total]\<rparr>)"

text \<open>Modelled from the spec: a slice of a rank-1 array (slice.ts is not part of the
  excerpt): \<open>sz\<close> values from position \<open>begin\<close>, or all the rest when no size is
  given.\<close>

definition tf_slice :: "tensor \<Rightarrow> nat \<Rightarrow> nat option \<Rightarrow> tensor" where
  "tf_slice x begin sz =
     (let vs = (case sz of None \<Rightarrow> drop begin (vals x)
                | Some n \<Rightarrow> take n (drop begin (vals x)))
      in \<lparr>shape = [length vs], dtype = dtype x, vals = vs\<rparr>)"

text \<open>Modelled from the spec: range generation and constant-filled arrays (range.ts,
  fill.ts are not part of the excerpt). A range is floating-point; its first value is
  the start and every further value is the one before plus 1, in float32.\<close>

fun range_vals :: "nat \<Rightarrow> number \<Rightarrow> number list" where
  "range_vals 0 v = []"
| "range_vals (Suc n) v = v # range_vals n (num_add v (Fin 1))"

definition tf_range :: "nat \<Rightarrow> nat \<Rightarrow> tensor" where
  "tf_range start stop =
     \<lparr>shape = [stop - start], dtype = float32,
      vals = range_vals (stop - start) (to_f32 (Fin (of_nat start)))\<rparr>"

definition tf_fill :: "nat list \<Rightarrow> number \<Rightarrow> tensor" where
  "tf_fill s v = \<lparr>shape = s, dtype = float32, vals = replicate (prod_list s) (to_f32 v)\<rparr>"

subsection \<open>Errors\<close>

text \<open>
  \<^verbatim>\<open>util.assert\<close> throws an error carrying a message. The four assertions of
  \<^verbatim>\<open>threshold_\<close> are the specification's \<open>InvalidArgument\<close>; the payload is the value
  the message prints. \<open>NegativeInput\<close> is the error of the library's histogram binning,
  \<^verbatim>\<open>Input x must be non-negative!\<close>.
\<close>

datatype invalid = NotRank3 nat | BadChannels "nat option" | BadDtype dtype | BadMethod string

datatype error = InvalidArgument invalid | NegativeInput

text \<open>Modelled from the spec: histogram binning (bincount.ts is not part of the
  excerpt): bucket \<open>k\<close> counts the values equal to \<open>k\<close>, for \<open>k\<close> below \<open>sz\<close>. The
  specification says nothing of values outside the buckets; the library throws for a
  value below 0 and skips a value of \<open>sz\<close> or more. The weights argument of the call is
  the empty array, so every value counts once and the counts are floating-point: a count
  grows by float32 additions of 1.\<close>

definition bucket_count :: "number list \<Rightarrow> nat \<Rightarrow> number" where
  "bucket_count xs k =
     foldl (\<lambda>acc v. if v = Fin (of_nat k) then num_add acc (Fin 1) else acc) (Fin 0) xs"

definition tf_bincount :: "tensor \<Rightarrow> nat \<Rightarrow> error + tensor" where
  "tf_bincount x sz =
     (if \<exists>v \<in> set (vals x). num_greater (Fin 0) v then Inl NegativeInput
      else Inr \<lparr>shape = [sz], dtype = float32,
                vals = map (bucket_count (vals x)) [0..<sz]\<rparr>)"

text \<open>Modelled from the spec: splitting along the last axis (split.ts is not part of the
  excerpt). The values are stored row by row, the last axis running fastest; piece \<open>k\<close>
  takes, from every run of the last axis, the \<open>sizes ! k\<close> values after those of the
  pieces before it.\<close>

definition split_piece :: "tensor \<Rightarrow> nat \<Rightarrow> nat \<Rightarrow> tensor" where
  "split_piece x off n =
     (let d = last (shape x)
      in \<lparr>shape = butlast (shape x) @ [n], dtype = dtype x,
          vals = concat (map (\<lambda>i. take n (drop (i * d + off) (vals x)))
                           [0..<length (vals x) div d])\<rparr>)"

definition tf_split :: "tensor \<Rightarrow> nat list \<Rightarrow> tensor list" where
  "tf_split x sizes =
     map (\<lambda>k. split_piece x (sum_list (take k sizes)) (sizes ! k)) [0..<length sizes]"

subsection \<open>otsu (lines 141-181)\<close>

text \<open>Lines 151-171: the body of the loop up to \<^verbatim>\<open>cInBetVar\<close>, the between-class variance
  of the split at \<open>index\<close>.\<close>

definition cInBetVar :: "tensor \<Rightarrow> number \<Rightarrow> nat \<Rightarrow> tensor" where
  "cInBetVar histogram totalPx index =
     (let classFirst = tf_slice histogram 0 (Some (index + 1));
          classSecond = tf_slice histogram (index + 1) None;
          weightForeground = tf_div (tf_sum classFirst) (tf_scalar totalPx);
          weightBack = tf_div (tf_sum classSecond) (tf_scalar totalPx);
          meanFirstDivA = tf_sum (tf_mul classFirst (tf_range 0 (tsize classFirst)));
          meanFirst = tf_div meanFirstDivA (tf_sum classFirst);
          meanSecFill = tf_fill (shape classSecond) (Fin (of_nat (tsize classFirst)));
          meanSecAdd = tf_add (tf_range 0 (tsize classSecond)) meanSecFill;
          meanSecMul = tf_mul classSecond meanSecAdd;
          meanSec = tf_div (tf_sum meanSecMul) (tf_sum classSecond);
          cInBetVarSubA = tf_sub meanFirst meanSec;
          cInBetVarSubB = tf_sub meanFirst meanSec;
          cInBetVarMul = tf_mul weightForeground weightBack
      in tf_mul (tf_mul cInBetVarMul cInBetVarSubA) cInBetVarSubB)"

text \<open>Lines 173-177: the update of the pair \<open>(bestThresh, bestInBetVar)\<close>.\<close>

definition otsu_body :: "tensor \<Rightarrow> number \<Rightarrow> nat \<Rightarrow> tensor \<times> tensor \<Rightarrow> tensor \<times> tensor" where
  "otsu_body histogram totalPx index st =
     (let bestThresh = fst st; bestInBetVar = snd st;
          condition = tf_greater (cInBetVar histogram totalPx index) bestInBetVar
      in (tf_where condition (tf_tensor1d [Fin (of_nat index)]) bestThresh,
          tf_where condition (cInBetVar histogram totalPx index) bestInBetVar))"

text \<open>Line 149: \<^verbatim>\<open>for (let index = 0; index < histogram.size-1; index++)\<close>.\<close>

function otsu_loop :: "tensor \<Rightarrow> number \<Rightarrow> nat \<Rightarrow> tensor \<times> tensor \<Rightarrow> tensor \<times> tensor" where
  "otsu_loop histogram totalPx index st =
     (if int index < int (tsize histogram) - 1
      then otsu_loop histogram totalPx (index + 1) (otsu_body histogram totalPx index st)
      else st)"
  by pat_completeness auto
termination
  by (relation "measure (\<lambda>(histogram, totalPx, index, st). tsize histogram - index)") auto

declare otsu_loop.simps [simp del]

definition otsu :: "tensor \<Rightarrow> number \<Rightarrow> tensor" where
  "otsu histogram totalPx =
     fst (otsu_loop histogram totalPx 0 (tf_tensor1d [Fin (- 1)], tf_tensor1d [Fin 0]))"

subsection \<open>threshold_ (lines 71-139)\<close>

text \<open>
  \<^verbatim>\<open>triangle\<close> (lines 183-228) and \<^verbatim>\<open>trimZeros\<close> (lines 230-250) compute with \<^verbatim>\<open>atan\<close>,
  \<^verbatim>\<open>tan\<close>, \<^verbatim>\<open>sqrt\<close>, a division by negative zero and the printed form of an array. The
  model takes the function \<open>triangle\<close> as an argument instead: every statement below
  holds whatever it computes.
\<close>

text \<open>Lines 82-84. The literals are JavaScript numbers.\<close>

definition RED_INTENCITY_COEF :: number where
  "RED_INTENCITY_COEF = to_f64 (Fin (2989 / 10000))"

definition GREEN_INTENCITY_COEF :: number where
  "GREEN_INTENCITY_COEF = to_f64 (Fin (5870 / 10000))"

definition BLUE_INTENCITY_COEF :: number where
  "BLUE_INTENCITY_COEF = to_f64 (Fin (1140 / 10000))"

text \<open>Line 85. A missing extent is \<^verbatim>\<open>undefined\<close>, and the product is then \<open>NaN\<close>.\<close>

definition totalPixelsInImage :: "tensor \<Rightarrow> number" where
  "totalPixelsInImage img =
     (case (extent (shape img) 0, extent (shape img) 1) of
        (Some h, Some w) \<Rightarrow> to_f64 (Fin (of_nat (h * w)))
      | _ \<Rightarrow> NaN)"

text \<open>Line 87: the threshold before a method replaces it.\<close>

definition initial_threshold :: "number \<Rightarrow> tensor" where
  "initial_threshold threshValue = tf_mul (tf_tensor1d [threshValue]) (tf_scalar (Fin 255))"

text \<open>Lines 90-108: the four assertions, in their order.\<close>

definition validate :: "tensor \<Rightarrow> string \<Rightarrow> error + unit" where
  "validate img method =
     (if length (shape img) \<noteq> 3
        then Inl (InvalidArgument (NotRank3 (length (shape img))))
      else if \<not> (extent (shape img) 2 = Some 3 \<or> extent (shape img) 2 = Some 1)
        then Inl (InvalidArgument (BadChannels (extent (shape img) 2)))
      else if \<not> (dtype img = int32 \<or> dtype img = float32)
        then Inl (InvalidArgument (BadDtype (dtype img)))
      else if \<not> (method = ''otsu'' \<or> method = ''binary'')
        then Inl (InvalidArgument (BadMethod method))
      else Inr ())"

text \<open>Lines 110-118: the grayscale image.\<close>

definition grayscale_of :: "tensor \<Rightarrow> tensor" where
  "grayscale_of img =
     (if extent (shape img) 2 = Some 3
      then (let parts = tf_split img [1, 1, 1];
                r = parts ! 0; g = parts ! 1; b = parts ! 2;
                r' = tf_mul r (tf_scalar RED_INTENCITY_COEF);
                g' = tf_mul g (tf_scalar GREEN_INTENCITY_COEF);
                b' = tf_mul b (tf_scalar BLUE_INTENCITY_COEF)
            in tf_add (tf_add r' g') b')
      else img)"

text \<open>Lines 121-123 and 127-129: the histogram of the rounded grayscale image.\<close>

definition histogram_of :: "tensor \<Rightarrow> error + tensor" where
  "histogram_of grayscale = tf_bincount (tf_cast (tf_round grayscale) int32) 256"

text \<open>Lines 120-131: the threshold the comparison uses (\<^verbatim>\<open>$threshold\<close>). An error of the
  histogram ends the call.\<close>

definition select_threshold ::
  "(tensor \<Rightarrow> tensor) \<Rightarrow> tensor \<Rightarrow> string \<Rightarrow> number \<Rightarrow> error + tensor" where
  "select_threshold triangle img method threshValue =
     (let thresh = initial_threshold threshValue;
          grayscale = grayscale_of img
      in if method = ''otsu''
         then (case histogram_of grayscale of
                 Inl e \<Rightarrow> Inl e
               | Inr histogram \<Rightarrow> Inr (otsu histogram (totalPixelsInImage img)))
         else if method = ''triangle''
         then (case histogram_of grayscale of
                 Inl e \<Rightarrow> Inl e
               | Inr histogram \<Rightarrow> Inr (triangle histogram))
         else Inr thresh)"

text \<open>The library calls that \<^verbatim>\<open>threshold_\<close> itself makes, by name and in the order of
  the source: those of lines 110-118 and those of lines 120-131.\<close>

definition grayscale_calls :: "tensor \<Rightarrow> string list" where
  "grayscale_calls img =
     (if extent (shape img) 2 = Some 3
      then [''split'', ''mul'', ''mul'', ''mul'', ''add'', ''add'']
      else [])"

definition select_calls :: "tensor \<Rightarrow> string \<Rightarrow> string list" where
  "select_calls img method =
     (if method = ''otsu''
      then [''round'', ''cast'', ''tensor'', ''bincount''] @
           (case histogram_of (grayscale_of img) of Inl e \<Rightarrow> [] | Inr h \<Rightarrow> [''otsu''])
      else if method = ''triangle''
      then [''round'', ''cast'', ''tensor'', ''bincount''] @
           (case histogram_of (grayscale_of img) of Inl e \<Rightarrow> [] | Inr h \<Rightarrow> [''triangle''])
      else [])"

text \<open>The whole function, in the order of the source: lines 77-87 come before the
  assertions. The first component is the list of the calls made, the second the result.\<close>

definition threshold_run ::
  "(tensor \<Rightarrow> tensor) \<Rightarrow> tensor \<Rightarrow> string \<Rightarrow> bool \<Rightarrow> number \<Rightarrow> string list \<times> (error + tensor)" where
  "threshold_run triangle img method inverted threshValue =
     (let before = [''convertToTensor'', ''tensor1d'', ''mul'']
      in case validate img method of
           Inl e \<Rightarrow> (before, Inl e)
         | Inr u \<Rightarrow>
             (let grayscale = grayscale_of img;
                  calls = before @ grayscale_calls img @ select_calls img method
              in case select_threshold triangle img method threshValue of
                   Inl e \<Rightarrow> (calls, Inl e)
                 | Inr thresh \<Rightarrow>
                     (let invCondition = (if inverted then tf_lessEqual grayscale thresh
                                          else tf_greater grayscale thresh);
                          result = tf_cast (tf_mul invCondition (tf_scalar (Fin 255))) int32
                      in (calls @ [if inverted then ''lessEqual'' else ''greater'',
                                   ''mul'', ''cast''],
                          Inr result))))"

text \<open>The exported operation, \<^verbatim>\<open>threshold = op({threshold_})\<close>: its result.\<close>

definition threshold ::
  "(tensor \<Rightarrow> tensor) \<Rightarrow> tensor \<Rightarrow> string \<Rightarrow> bool \<Rightarrow> number \<Rightarrow> error + tensor" where
  "threshold triangle img method inverted threshValue =
     snd (threshold_run triangle img method inverted threshValue)"

subsection \<open>The statements of the specification\<close>

text \<open>A valid image: rank 3, one or three channels, integer or floating-point values.\<close>

definition valid_image :: "tensor \<Rightarrow> bool" where
  "valid_image img =
     (length (shape img) = 3 \<and>
      (extent (shape img) 2 = Some 3 \<or> extent (shape img) 2 = Some 1) \<and>
      (dtype img = int32 \<or> dtype img = float32))"

text \<open>The between-class variance of the split after bucket \<open>t\<close> of a floating-point
  histogram, in the words of the specification (section 4.2): the two classes are the
  buckets up to \<open>t\<close> and the buckets after it, a weight is the class's share of the \<open>n\<close>
  pixels, a mean is the class's average intensity, the intensity of a bucket being its
  position in the whole histogram, and the variance is the product of the weights and of
  the squared difference of the means. Every operation is the float32 one. It is compared
  below with \<open>cInBetVar\<close>, the value the code computes.\<close>

definition num_sum :: "number list \<Rightarrow> number" where
  "num_sum xs = to_f32 (foldl add64 (Fin 0) xs)"

definition first_intensities :: "nat \<Rightarrow> number list" where
  "first_intensities n = range_vals n (Fin 0)"

definition second_intensities :: "nat \<Rightarrow> nat \<Rightarrow> number list" where
  "second_intensities off n =
     map (\<lambda>k. num_add k (to_f32 (Fin (of_nat off)))) (range_vals n (Fin 0))"

definition weighted :: "number list \<Rightarrow> number list \<Rightarrow> number list" where
  "weighted xs ks = map (\<lambda>(x, k). num_mul x k) (zip xs ks)"

definition spec_betweenClassVariance :: "number list \<Rightarrow> number \<Rightarrow> nat \<Rightarrow> number" where
  "spec_betweenClassVariance hs n t =
     (let classFirst = take (t + 1) hs;
          classSecond = drop (t + 1) hs;
          weightForeground = num_div (num_sum classFirst) (to_f32 n);
          weightBackground = num_div (num_sum classSecond) (to_f32 n);
          meanFirst = num_div
            (num_sum (weighted classFirst (first_intensities (length classFirst))))
            (num_sum classFirst);
          meanSecond = num_div
            (num_sum (weighted classSecond
               (second_intensities (length classFirst) (length classSecond))))
            (num_sum classSecond);
          d = num_sub meanFirst meanSecond
      in num_mul (num_mul (num_mul weightForeground weightBackground) d) d)"

text \<open>The invariant of the loop of \<open>otsu\<close> before iteration \<open>i\<close>: \<open>b\<close> is the running
  best variance and \<open>t\<close> the running best threshold.\<close>

definition otsu_inv :: "number list \<Rightarrow> number \<Rightarrow> nat \<Rightarrow> number \<Rightarrow> number \<Rightarrow> bool" where
  "otsu_inv hs n i t b =
     ((\<forall>s<i. \<not> num_greater (spec_betweenClassVariance hs n s) b) \<and>
      ((t = Fin (- 1) \<and> b = Fin 0) \<or>
       (\<exists>k<i. t = to_f32 (Fin (of_nat k)) \<and> b = spec_betweenClassVariance hs n k \<and>
          num_greater b (Fin 0) \<and>
          (\<forall>s<k. num_greater b (spec_betweenClassVariance hs n s) \<or>
                 spec_betweenClassVariance hs n s = NaN))))"

text \<open>The exchange of 0 and 255.\<close>

definition complement255 :: "number \<Rightarrow> number" where
  "complement255 x = (if x = Fin 0 then Fin 255 else if x = Fin 255 then Fin 0 else x)"

text \<open>The output the specification promises for a call on \<open>img\<close>: an array of the
  image's own shape, integer, every value 0 or 255.\<close>

definition claimed_output :: "tensor \<Rightarrow> error + tensor \<Rightarrow> bool" where
  "claimed_output img res =
     (case res of
        Inl e \<Rightarrow> False
      | Inr out \<Rightarrow> list_all (\<lambda>x. x = Fin 0 \<or> x = Fin 255) (vals out) \<and>
                   dtype out = int32 \<and> shape out = shape img)"

text \<open>The inversion law of the specification: the inverted result is the plain result
  with 0 and 255 exchanged.\<close>

definition inversion_law :: "(tensor \<Rightarrow> tensor) \<Rightarrow> tensor \<Rightarrow> string \<Rightarrow> number \<Rightarrow> bool" where
  "inversion_law triangle img method threshValue =
     (case (threshold triangle img method True threshValue,
            threshold triangle img method False threshValue) of
        (Inr a, Inr b) \<Rightarrow> a = b\<lparr>vals := map complement255 (vals b)\<rparr>
      | _ \<Rightarrow> False)"

text \<open>The range the specification gives for the threshold: a single finite value
  between 0 and 255.\<close>

definition threshold_in_range :: "tensor \<Rightarrow> bool" where
  "threshold_in_range t = (\<exists>q. vals t = [Fin q] \<and> 0 \<le> q \<and> q \<le> 255)"

text \<open>The optimality the specification states for the search over a histogram of 256
  buckets: the result is a split index below 255 whose variance is at least that of every
  candidate, and no earlier candidate reaches it.\<close>

definition otsu_optimal :: "tensor \<Rightarrow> number \<Rightarrow> bool" where
  "otsu_optimal histogram n =
     (\<exists>t<255. otsu histogram n = vec1 (Fin (of_nat t)) \<and>
        (\<forall>s<255. num_lessEqual (spec_betweenClassVariance (vals histogram) n s)
                               (spec_betweenClassVariance (vals histogram) n t)) \<and>
        (\<forall>s<t. \<not> num_lessEqual (spec_betweenClassVariance (vals histogram) n t)
                                (spec_betweenClassVariance (vals histogram) n s)))"


subsection \<open>Sample inputs\<close>

text \<open>Closed examples need some function in the place of \<open>triangle\<close>. These two differ on
  every histogram.\<close>

definition triangle0 :: "tensor \<Rightarrow> tensor" where
  "triangle0 histogram = vec1 (Fin 0)"

definition triangle1 :: "tensor \<Rightarrow> tensor" where
  "triangle1 histogram = vec1 (Fin 1)"

text \<open>The image of the specification's example scenario, \<^verbatim>\<open>[[10,200],[250,5]]\<close>.\<close>

definition example_image :: tensor where
  "example_image = \<lparr>shape = [2, 2, 1], dtype = float32,
                     vals = [Fin 10, Fin 200, Fin 250, Fin 5]\<rparr>"

text \<open>Two colour pixels in a row.\<close>

definition rgb_image :: tensor where
  "rgb_image = \<lparr>shape = [1, 2, 3], dtype = int32,
                 vals = [Fin 144, Fin 255, Fin 51, Fin 13, Fin 32, Fin 59]\<rparr>"

text \<open>A 2 by 2 image of one intensity.\<close>

definition constant_image :: tensor where
  "constant_image = \<lparr>shape = [2, 2, 1], dtype = int32,
                      vals = [Fin 5, Fin 5, Fin 5, Fin 5]\<rparr>"

text \<open>A one-pixel image whose value is not a number, and an image with a negative
  pixel.\<close>

definition nan_image :: tensor where
  "nan_image = \<lparr>shape = [1, 1, 1], dtype = float32, vals = [NaN]\<rparr>"

definition negative_image :: tensor where
  "negative_image = \<lparr>shape = [2, 2, 1], dtype = float32,
                      vals = [Fin (- 1), Fin 5, Fin 5, Fin 200]\<rparr>"


text \<open>Two small histograms. In the first, bucket 0 is empty and the splits 1 and 2 have
  the same variance. In the second, the variances of the splits 1 and 2 are both
  \<open>1/3\<close> before rounding, and differ after it.\<close>

definition small_histogram :: tensor where
  "small_histogram = \<lparr>shape = [5], dtype = float32,
                       vals = [Fin 0, Fin 1, Fin 0, Fin 2, Fin 1]\<rparr>"

definition rounded_histogram :: tensor where
  "rounded_histogram = \<lparr>shape = [4], dtype = float32,
                         vals = [Fin 0, Fin 1, Fin 2, Fin 1]\<rparr>"

text \<open>The histogram of the image of one intensity: four pixels in bucket 5.\<close>

definition constant_histogram :: tensor where
  "constant_histogram = \<lparr>shape = [256], dtype = float32,
                          vals = replicate 5 (Fin 0) @ [Fin 4] @ replicate 250 (Fin 0)\<rparr>"

section \<open>Properties of the rounding\<close>

lemma pow2_pos: "0 < pow2 e"
  by (simp add: pow2_def)

lemma pow2_0: "pow2 0 = 1"
  by (simp add: pow2_def)

lemma pow2_nat: "pow2 (int n) = 2 ^ n"
  by (simp add: pow2_def)

lemma pow2_succ: "pow2 (e + 1) = 2 * pow2 e"
proof (cases "0 \<le> e")
  case True
  then show ?thesis by (simp add: pow2_def nat_add_distrib)
next
  case False
  show ?thesis
  proof (cases "e = - 1")
    case True
    then show ?thesis by (simp add: pow2_def)
  next
    case False
    with \<open>\<not> 0 \<le> e\<close> have lt: "e + 1 < 0" by simp
    then have "nat (- e) = Suc (nat (- (e + 1)))" by simp
    then show ?thesis using lt \<open>\<not> 0 \<le> e\<close> by (simp add: pow2_def)
  qed
qed

lemma pow2_pred: "pow2 (e - 1) = pow2 e / 2"
  using pow2_succ[of "e - 1"] by simp

lemma pow2_add_nat: "pow2 (e + int n) = 2 ^ n * pow2 e"
proof (induction n)
  case 0
  then show ?case by simp
next
  case (Suc n)
  have "e + int (Suc n) = (e + int n) + 1" by simp
  then have "pow2 (e + int (Suc n)) = pow2 ((e + int n) + 1)" by (rule arg_cong)
  also have "\<dots> = 2 * pow2 (e + int n)" by (rule pow2_succ)
  finally show ?case using Suc by simp
qed

lemma pow2_mono: "e \<le> e' \<Longrightarrow> pow2 e \<le> pow2 e'"
proof -
  assume "e \<le> e'"
  then obtain n where "e' = e + int n" by (metis zle_iff_zadd)
  then have "pow2 e' = 2 ^ n * pow2 e" by (simp add: pow2_add_nat)
  moreover have "(1::rat) \<le> 2 ^ n" by simp
  ultimately show ?thesis using pow2_pos[of e] by (simp add: mult_le_cancel_right1)
qed

lemma expo_bounds: "0 < a \<Longrightarrow> pow2 (expo a) \<le> a \<and> a < pow2 (expo a + 1)"
proof (induction a rule: expo.induct)
  case (1 a)
  show ?case
  proof (cases "2 \<le> a")
    case True
    with "1.prems" have e: "expo a = expo (a / 2) + 1" by (subst expo.simps) simp
    from "1.prems" True have "\<not> a \<le> 0" by simp
    from "1.IH"(1)[OF this True] "1.prems"
    have ih: "pow2 (expo (a / 2)) \<le> a / 2 \<and> a / 2 < pow2 (expo (a / 2) + 1)" by simp
    have s1: "pow2 (expo (a / 2) + 1) = 2 * pow2 (expo (a / 2))" by (rule pow2_succ)
    have s2: "pow2 (expo (a / 2) + 1 + 1) = 2 * pow2 (expo (a / 2) + 1)" by (rule pow2_succ)
    from ih show ?thesis unfolding e s2 unfolding s1 by linarith
  next
    case False
    show ?thesis
    proof (cases "a < 1")
      case True
      with "1.prems" False have e: "expo a = expo (a * 2) - 1" by (subst expo.simps) simp
      from "1.prems" have n: "\<not> a \<le> 0" by simp
      from "1.IH"(2)[OF n False True] "1.prems"
      have ih: "pow2 (expo (a * 2)) \<le> a * 2 \<and> a * 2 < pow2 (expo (a * 2) + 1)" by simp
      have s1: "pow2 (expo (a * 2) - 1) = pow2 (expo (a * 2)) / 2" by (rule pow2_pred)
      have s2: "pow2 (expo (a * 2) - 1 + 1) = 2 * pow2 (expo (a * 2) - 1)" by (rule pow2_succ)
      have s3: "pow2 (expo (a * 2) + 1) = 2 * pow2 (expo (a * 2))" by (rule pow2_succ)
      from ih show ?thesis unfolding e s2 unfolding s1 s3 by linarith
    next
      case False
      with "1.prems" \<open>\<not> 2 \<le> a\<close> have e: "expo a = 0" by (subst expo.simps) simp
      from False \<open>\<not> 2 \<le> a\<close> show ?thesis unfolding e by (simp add: pow2_def)
    qed
  qed
qed

lemma expo_upper:
  assumes "0 < a" and "a < pow2 (j + 1)"
  shows "expo a \<le> j"
proof (rule ccontr)
  assume "\<not> expo a \<le> j"
  then have "j + 1 \<le> expo a" by simp
  then have "pow2 (j + 1) \<le> pow2 (expo a)" by (rule pow2_mono)
  also have "\<dots> \<le> a" using expo_bounds[OF assms(1)] by simp
  finally show False using assms(2) by simp
qed

lemma expo_lower:
  assumes "0 < a" and "pow2 j \<le> a"
  shows "j \<le> expo a"
proof (rule ccontr)
  assume "\<not> j \<le> expo a"
  then have "expo a + 1 \<le> j" by simp
  then have "pow2 (expo a + 1) \<le> pow2 j" by (rule pow2_mono)
  moreover have "a < pow2 (expo a + 1)" using expo_bounds[OF assms(1)] by simp
  ultimately show False using assms(2) by simp
qed

lemma round_half_even_int: "round_half_even (of_int m) = m"
  by (simp add: round_half_even_def)

lemma round_half_even_le:
  assumes "x \<le> of_int m"
  shows "round_half_even x \<le> m"
proof -
  have f: "\<lfloor>x\<rfloor> \<le> m" using assms by (simp add: floor_le_iff)
  show ?thesis
  proof (cases "x - of_int \<lfloor>x\<rfloor> < 1 / 2")
    case True
    then show ?thesis using f by (simp add: round_half_even_def Let_def)
  next
    case False
    then have "of_int \<lfloor>x\<rfloor> < x" by linarith
    with assms have "of_int \<lfloor>x\<rfloor> < (of_int m :: rat)" by linarith
    then have "\<lfloor>x\<rfloor> < m" by simp
    then show ?thesis by (auto simp: round_half_even_def Let_def)
  qed
qed

lemma round_half_even_nonneg: "0 \<le> x \<Longrightarrow> 0 \<le> round_half_even x"
  by (auto simp: round_half_even_def Let_def)

text \<open>Values between 0 and a bound below \<open>2^24\<close> stay in that range.\<close>

lemma f32_bounded:
  assumes q0: "0 \<le> q" and qb: "q \<le> of_nat b" and b: "b < 2 ^ 24"
  shows "\<exists>r. f32 q = Fin r \<and> 0 \<le> r \<and> r \<le> of_nat b"
proof (cases "q = 0")
  case True
  then show ?thesis by (simp add: f32_def round_float_def)
next
  case False
  with q0 have qp: "0 < q" by simp
  define e where "e = max (expo q) (- 126)"
  define u where "u = pow2 (e - 23)"
  define m where "m = round_half_even (q / u)"
  have "q < pow2 (23 + 1)" using qb b by (simp add: pow2_def)
  from expo_upper[OF qp this] have "expo q \<le> 23" .
  then have e23: "e \<le> 23" by (simp add: e_def)
  define n where "n = nat (23 - e)"
  have en: "e - 23 + int n = 0" using e23 by (simp add: n_def)
  have "pow2 (e - 23 + int n) = 2 ^ n * pow2 (e - 23)" by (rule pow2_add_nat)
  then have un: "2 ^ n * u = 1" unfolding en u_def by (simp add: pow2_0)
  have up: "0 < u" by (simp add: u_def pow2_pos)
  from un up have u_inv: "1 / u = 2 ^ n" by (simp add: field_simps)
  have "q / u \<le> of_nat b / u" using qb up by (simp add: divide_right_mono)
  also have "of_nat b / u = of_nat b * (1 / u)" by simp
  also have "\<dots> = of_int (int b * 2 ^ n)" unfolding u_inv by simp
  finally have "m \<le> int b * 2 ^ n" unfolding m_def by (rule round_half_even_le)
  then have "(of_int m :: rat) \<le> of_int (int b * 2 ^ n)" by (simp only: of_int_le_iff)
  then have "of_int m * u \<le> of_int (int b * 2 ^ n) * u" using up by (simp add: mult_right_mono)
  also have "\<dots> = of_nat b" using un by (simp add: mult.assoc)
  finally have rb: "of_int m * u \<le> of_nat b" .
  have "0 \<le> q / u" using qp up by simp
  then have "0 \<le> m" unfolding m_def by (rule round_half_even_nonneg)
  then have r0: "0 \<le> of_int m * u" using up by simp
  have "(of_nat b :: rat) < 2 ^ 128"
  proof -
    have "(of_nat b :: rat) < 2 ^ 24" using b by (metis of_nat_less_numeral_power_cancel_iff)
    also have "\<dots> < 2 ^ 128" by simp
    finally show ?thesis .
  qed
  with rb have "\<not> pow2 (127 + 1) \<le> of_int m * u" by (simp add: pow2_def)
  then have "f32 q = Fin (of_int m * u)"
    using qp False by (simp add: f32_def round_float_def Let_def m_def u_def e_def)
  with rb r0 show ?thesis by blast
qed

text \<open>Natural numbers below \<open>2^24\<close> are float32 values.\<close>

lemma f32_nat:
  assumes k: "k < 2 ^ 24"
  shows "f32 (of_nat k) = Fin (of_nat k)"
proof (cases "k = 0")
  case True
  then show ?thesis by (simp add: f32_def round_float_def)
next
  case False
  define q :: rat where "q = of_nat k"
  from False have qp: "0 < q" and q1: "pow2 0 \<le> q" by (simp_all add: q_def pow2_def)
  define e where "e = max (expo q) (- 126)"
  define u where "u = pow2 (e - 23)"
  have "q < pow2 (23 + 1)" using k by (simp add: pow2_def q_def)
  from expo_upper[OF qp this] have "expo q \<le> 23" .
  then have e23: "e \<le> 23" by (simp add: e_def)
  define n where "n = nat (23 - e)"
  have en: "e - 23 + int n = 0" using e23 by (simp add: n_def)
  have "pow2 (e - 23 + int n) = 2 ^ n * pow2 (e - 23)" by (rule pow2_add_nat)
  then have un: "2 ^ n * u = 1" unfolding en u_def by (simp add: pow2_0)
  have up: "0 < u" by (simp add: u_def pow2_pos)
  from un up have u_inv: "1 / u = 2 ^ n" by (simp add: field_simps)
  have "q / u = q * (1 / u)" by simp
  also have "\<dots> = of_int (int k * 2 ^ n)" unfolding u_inv by (simp add: q_def)
  finally have "round_half_even (q / u) = int k * 2 ^ n" by (simp only: round_half_even_int)
  then have r: "of_int (round_half_even (q / u)) * u = q"
    using un by (simp add: q_def mult.assoc)
  have "q < 2 ^ 128"
  proof -
    have "q < 2 ^ 24" using k unfolding q_def by (metis of_nat_less_numeral_power_cancel_iff)
    also have "\<dots> < 2 ^ 128" by simp
    finally show ?thesis .
  qed
  then have "\<not> pow2 (127 + 1) \<le> q" by (simp add: pow2_def)
  then have "f32 q = Fin q"
    using qp r by (simp add: f32_def round_float_def Let_def u_def e_def)
  then show ?thesis by (simp add: q_def)
qed

lemma f32_0: "f32 0 = Fin 0"
  by (simp add: f32_def round_float_def)

lemma f64_0: "f64 0 = Fin 0"
  by (simp add: f64_def round_float_def)

lemma f32_1: "f32 1 = Fin 1"
  using f32_nat[of 1] by simp

lemma f32_255: "f32 255 = Fin 255"
  using f32_nat[of 255] by simp

lemma f32_minus_1: "f32 (- 1) = Fin (- 1)"
  by code_simp

lemma f32_not_NaN: "f32 q \<noteq> NaN"
  by (simp add: f32_def round_float_def Let_def)

lemma to_f32_not_NaN: "x \<noteq> NaN \<Longrightarrow> to_f32 x \<noteq> NaN"
  by (cases x) (simp_all add: f32_not_NaN)

lemma to_f32_nat: "k < 2 ^ 24 \<Longrightarrow> to_f32 (Fin (of_nat k)) = Fin (of_nat k)"
  by (simp add: f32_nat)

lemmas f32_small = f32_0 f32_1 f32_255 f32_minus_1

section \<open>Properties of the array library\<close>

lemma zip_replicate_right: "zip xs (replicate (length xs) y) = map (\<lambda>x. (x, y)) xs"
  by (induction xs) auto

lemma zip_replicate_len: "length xs = n \<Longrightarrow> zip xs (replicate n y) = map (\<lambda>x. (x, y)) xs"
  using zip_replicate_right[of xs y] by simp

lemma expand_single: "expand n [x] = replicate n x"
  by (simp add: expand_def)

lemma expand_other: "length xs \<noteq> 1 \<Longrightarrow> expand n xs = xs"
  by (cases xs; cases "tl xs") (auto simp: expand_def split: list.splits)

lemma binop_single_right:
  "vals b = [y] \<Longrightarrow>
   binop f a b =
     map (\<lambda>x. f (conv (upcastType (dtype a) (dtype b)) (dtype a) x)
                (conv (upcastType (dtype a) (dtype b)) (dtype b) y)) (vals a)"
proof (cases "length (vals a) = 1")
  case True
  assume b: "vals b = [y]"
  from True obtain x where "vals a = [x]" by (cases "vals a") auto
  with b show ?thesis by (simp add: binop_def bsize_def expand_single Let_def)
next
  case False
  assume b: "vals b = [y]"
  with False show ?thesis
    by (simp add: binop_def bsize_def expand_single expand_other zip_replicate_right o_def Let_def)
qed

lemma binop_same_length:
  "length (vals a) = length (vals b) \<Longrightarrow>
   binop f a b =
     map (\<lambda>(x, y). f (conv (upcastType (dtype a) (dtype b)) (dtype a) x)
                     (conv (upcastType (dtype a) (dtype b)) (dtype b) y))
       (zip (vals a) (vals b))"
proof (cases "length (vals a) = 1")
  case True
  assume l: "length (vals a) = length (vals b)"
  from True obtain x where a: "vals a = [x]" by (cases "vals a") auto
  from True l obtain y where b: "vals b = [y]" by (cases "vals b") auto
  from a b show ?thesis by (simp add: binop_def bsize_def expand_single Let_def)
next
  case False
  assume l: "length (vals a) = length (vals b)"
  with False show ?thesis
    by (simp add: binop_def bsize_def expand_other Let_def)
qed

lemma conv_same: "conv float32 float32 v = v"
  by (simp add: conv_def)

lemma upcast_float: "upcastType d float32 = float32" "upcastType float32 d = float32"
  by (simp_all add: upcastType_def)

lemma broadcast_shape_Nil: "broadcast_shape s [] = s"
  by (cases "rev s") (auto simp: broadcast_shape_def)

lemma broadcast_shape_Nil_left: "broadcast_shape [] s = s"
  by (simp add: broadcast_shape_def)

lemma broadcast_shape_self: "broadcast_shape s s = s"
proof -
  have "bshape_rev xs xs = xs" for xs by (induction xs) auto
  then show ?thesis by (simp add: broadcast_shape_def)
qed

lemma broadcast_shape_one: "s \<noteq> [] \<Longrightarrow> broadcast_shape s [Suc 0] = s"
proof -
  assume "s \<noteq> []"
  then obtain x xs where r: "rev s = x # xs" by (cases "rev s") auto
  have "bshape_rev (x # xs) [Suc 0] = x # xs" by (cases xs) auto
  with r have "rev (bshape_rev (rev s) (rev [Suc 0])) = rev (rev s)" by simp
  then show ?thesis by (simp add: broadcast_shape_def)
qed

section \<open>Validation and the result of an accepted call\<close>

lemma validate_Inr:
  "validate img method = Inr u \<longleftrightarrow>
     length (shape img) = 3 \<and> (extent (shape img) 2 = Some 3 \<or> extent (shape img) 2 = Some 1) \<and>
     (dtype img = int32 \<or> dtype img = float32) \<and> (method = ''otsu'' \<or> method = ''binary'')"
  by (simp add: validate_def)

lemma validate_valid:
  "validate img method = Inr () \<longleftrightarrow>
     valid_image img \<and> (method = ''otsu'' \<or> method = ''binary'')"
  by (simp add: validate_Inr valid_image_def)

lemma threshold_invalid:
  "validate img method = Inl e \<Longrightarrow> threshold triangle img method inverted threshValue = Inl e"
  by (simp add: threshold_def threshold_run_def)

lemma threshold_select_error:
  "validate img method = Inr () \<Longrightarrow> select_threshold triangle img method threshValue = Inl e \<Longrightarrow>
   threshold triangle img method inverted threshValue = Inl e"
  by (simp add: threshold_def threshold_run_def Let_def)

lemma binarize_true: "num_toInt32 (num_mul (f32 1) (f32 255)) = Fin 255"
  by (simp add: num_mul_def f32_small)

lemma binarize_false: "num_toInt32 (num_mul (f32 0) (f32 255)) = Fin 0"
  by (simp add: num_mul_def f32_small)

lemma threshold_Inr:
  assumes v: "validate img method = Inr ()"
    and t: "select_threshold triangle img method threshValue = Inr (vec1 t)"
  shows "threshold triangle img method inverted threshValue =
         Inr \<lparr>shape = broadcast_shape (shape (grayscale_of img)) [Suc 0],
              dtype = int32,
              vals = map (\<lambda>g. if (if inverted
                                   then num_lessEqual (conv float32 (dtype (grayscale_of img)) g) t
                                   else num_greater (conv float32 (dtype (grayscale_of img)) g) t)
                               then Fin 255 else Fin 0) (vals (grayscale_of img))\<rparr>"
  using v t
  by (simp add: threshold_def threshold_run_def Let_def tf_lessEqual_def tf_greater_def
      tf_mul_def tf_cast_def tf_scalar_def vec1_def binop_single_right num_of_bool_def
      broadcast_shape_Nil upcastType_def conv_def binarize_true binarize_false
      cong: if_cong)

section \<open>The grayscale image\<close>

lemma take1_drop: "j < length xs \<Longrightarrow> take 1 (drop j xs) = [xs ! j]"
  by (simp add: take_Suc_conv_app_nth)

lemma upt_3: "[0..<3] = [0, 1, 2]"
  by (simp add: upt_rec)

lemma split_piece_channel:
  assumes s: "shape img = [h, w, 3]" and wf: "wf_tensor img" and c: "c < 3"
  shows "split_piece img c 1 =
         \<lparr>shape = [h, w, 1], dtype = dtype img,
          vals = map (\<lambda>p. vals img ! (p * 3 + c)) [0..<h * w]\<rparr>"
proof -
  from s wf have len: "length (vals img) = h * w * 3" by (simp add: wf_tensor_def)
  have "map (\<lambda>i. take 1 (drop (i * 3 + c) (vals img))) [0..<h * w] =
        map (\<lambda>i. [vals img ! (i * 3 + c)]) [0..<h * w]"
  proof (rule map_cong[OF refl])
    fix i assume "i \<in> set [0..<h * w]"
    then have "i * 3 + c < length (vals img)" using len c by auto
    then show "take 1 (drop (i * 3 + c) (vals img)) = [vals img ! (i * 3 + c)]"
      by (rule take1_drop)
  qed
  then have v: "concat (map (\<lambda>i. take 1 (drop (i * 3 + c) (vals img))) [0..<h * w]) =
        map (\<lambda>p. vals img ! (p * 3 + c)) [0..<h * w]"
    by (simp only: concat_map_singleton)
  have d: "last (shape img) = 3" and n: "length (vals img) div 3 = h * w"
    and bl: "butlast (shape img) = [h, w]"
    using s len by simp_all
  show ?thesis
    unfolding split_piece_def Let_def d n v bl by simp
qed

lemma tf_split_rgb:
  "tf_split img [1, 1, 1] ! 0 = split_piece img 0 1"
  "tf_split img [1, 1, 1] ! 1 = split_piece img 1 1"
  "tf_split img [1, 1, 1] ! 2 = split_piece img 2 1"
  by (simp_all add: tf_split_def upt_3 numeral_2_eq_2)

lemma grayscale_one_channel: "extent (shape img) 2 \<noteq> Some 3 \<Longrightarrow> grayscale_of img = img"
  by (simp add: grayscale_of_def)

lemma grayscale_three_channels:
  assumes s: "shape img = [h, w, 3]" and wf: "wf_tensor img"
  shows "grayscale_of img =
         \<lparr>shape = [h, w, 1], dtype = float32,
          vals = map (\<lambda>p. num_add
                        (num_add
                           (num_mul (conv float32 (dtype img) (vals img ! (p * 3)))
                              (to_f32 RED_INTENCITY_COEF))
                           (num_mul (conv float32 (dtype img) (vals img ! (p * 3 + 1)))
                              (to_f32 GREEN_INTENCITY_COEF)))
                        (num_mul (conv float32 (dtype img) (vals img ! (p * 3 + 2)))
                           (to_f32 BLUE_INTENCITY_COEF)))
                   [0..<h * w]\<rparr>"
proof -
  have d: "extent (shape img) 2 = Some 3" using s by (simp add: extent_def)
  have r: "split_piece img 0 1 = \<lparr>shape = [h, w, 1], dtype = dtype img,
          vals = map (\<lambda>p. vals img ! (p * 3)) [0..<h * w]\<rparr>"
    using split_piece_channel[OF s wf, of 0] by simp
  have g: "split_piece img 1 1 = \<lparr>shape = [h, w, 1], dtype = dtype img,
          vals = map (\<lambda>p. vals img ! (p * 3 + 1)) [0..<h * w]\<rparr>"
    using split_piece_channel[OF s wf, of 1] by simp
  have b: "split_piece img 2 1 = \<lparr>shape = [h, w, 1], dtype = dtype img,
          vals = map (\<lambda>p. vals img ! (p * 3 + 2)) [0..<h * w]\<rparr>"
    using split_piece_channel[OF s wf, of 2] by simp
  show ?thesis
    unfolding grayscale_of_def Let_def tf_split_rgb r g b
    by (simp add: d tf_mul_def tf_add_def
        tf_scalar_def binop_single_right binop_same_length broadcast_shape_Nil
        broadcast_shape_self upcast_float conv_same zip_map_map zip_same_conv_map o_def)
qed

lemma grayscale_shape:
  assumes "length (shape img) = 3" and "extent (shape img) 2 = Some 3 \<or> extent (shape img) 2 = Some 1"
  shows "shape (grayscale_of img) = [shape img ! 0, shape img ! 1, 1]"
proof -
  from assms(1) obtain h w c where s: "shape img = [h, w, c]"
    by (cases "shape img"; cases "tl (shape img)"; cases "tl (tl (shape img))") auto
  show ?thesis
  proof (cases "c = 3")
    case True
    have "shape (grayscale_of img) = [h, w, 1]"
      unfolding grayscale_of_def Let_def tf_split_rgb using s True
      by (simp add: extent_def split_piece_def Let_def
          tf_mul_def tf_add_def tf_scalar_def broadcast_shape_Nil broadcast_shape_self)
    then show ?thesis using s by simp
  next
    case False
    with assms(2) s have "c = 1" by (simp add: extent_def)
    with s show ?thesis by (simp add: grayscale_of_def extent_def)
  qed
qed

lemma length_range_vals: "length (range_vals n v) = n"
  by (induction n arbitrary: v) auto

lemma cInBetVar_scalar:
  assumes f: "dtype histogram = float32"
  shows "cInBetVar histogram totalPx index =
     scalar0 (spec_betweenClassVariance (vals histogram) totalPx index)"
proof -
  define cf where "cf = take (index + 1) (vals histogram)"
  define cs where "cs = drop (index + 1) (vals histogram)"
  have s1: "tf_slice histogram 0 (Some (index + 1)) =
            \<lparr>shape = [length cf], dtype = float32, vals = cf\<rparr>"
    by (simp add: tf_slice_def cf_def f)
  have s2: "tf_slice histogram (index + 1) None =
            \<lparr>shape = [length cs], dtype = float32, vals = cs\<rparr>"
    by (simp add: tf_slice_def cs_def f)
  have m1: "tf_mul \<lparr>shape = [length cf], dtype = float32, vals = cf\<rparr>
                     (tf_range 0 (length cf)) =
            \<lparr>shape = [length cf], dtype = float32,
             vals = weighted cf (first_intensities (length cf))\<rparr>"
    by (simp add: tf_mul_def tf_range_def binop_same_length length_range_vals
        weighted_def first_intensities_def upcast_float conv_same broadcast_shape_self f32_0)
  have m2: "tf_mul \<lparr>shape = [length cs], dtype = float32, vals = cs\<rparr>
                     (tf_add (tf_range 0 (length cs)) (tf_fill [length cs] (Fin (of_nat (length cf))))) =
            \<lparr>shape = [length cs], dtype = float32,
             vals = weighted cs (second_intensities (length cf) (length cs))\<rparr>"
    by (simp add: tf_mul_def tf_add_def tf_range_def tf_fill_def binop_same_length
        length_range_vals weighted_def second_intensities_def upcast_float conv_same
        broadcast_shape_self f32_0 zip_replicate_len o_def)
  show ?thesis
    unfolding cInBetVar_def Let_def s1 s2
    apply (simp add: tsize_def)
    unfolding spec_betweenClassVariance_def Let_def cf_def[symmetric] cs_def[symmetric] m1 m2
    apply (simp add: tf_sum_def num_sum_def scalar0_def tf_div_def tf_sub_def tf_mul_def
        tf_scalar_def binop_single_right broadcast_shape_Nil upcast_float conv_same)
    done
qed

lemma num_greater_irrefl: "\<not> num_greater x x"
  by (cases x) auto

lemma num_greater_raise:
  "num_greater c b \<Longrightarrow> \<not> num_greater x b \<Longrightarrow> \<not> num_greater x c"
  by (cases x; cases b; cases c) auto

lemma num_greater_below:
  "num_greater c b \<Longrightarrow> \<not> num_greater x b \<Longrightarrow> num_greater c x \<or> x = NaN"
  by (cases x; cases b; cases c) auto

lemma num_greater_trans:
  "num_greater c b \<Longrightarrow> num_greater b a \<Longrightarrow> num_greater c a"
  by (cases a; cases b; cases c) auto

lemma otsu_body_scalar:
  assumes f: "dtype histogram = float32"
  shows "otsu_body histogram totalPx index (vec1 t, vec1 b) =
     (if num_greater (spec_betweenClassVariance (vals histogram) totalPx index) b
      then (vec1 (to_f32 (Fin (of_nat index))),
            vec1 (spec_betweenClassVariance (vals histogram) totalPx index))
      else (vec1 t, vec1 b))"
  by (simp add: otsu_body_def Let_def cInBetVar_scalar[OF f] tf_greater_def tf_where_def
      tf_tensor1d_def scalar0_def vec1_def binop_single_right bsize_def expand_single
      broadcast_shape_Nil broadcast_shape_Nil_left broadcast_shape_self
      upcast_float conv_same num_of_bool_def)

section \<open>The search of otsu\<close>

lemma otsu_inv_keep:
  assumes inv: "otsu_inv hs n i t b"
    and no: "\<not> num_greater (spec_betweenClassVariance hs n i) b"
  shows "otsu_inv hs n (Suc i) t b"
proof -
  have a: "\<not> num_greater (spec_betweenClassVariance hs n s) b" if "s < Suc i" for s
  proof (cases "s = i")
    case True
    with no show ?thesis by simp
  next
    case False
    with that have "s < i" by simp
    with inv show ?thesis by (simp add: otsu_inv_def)
  qed
  from inv have "(t = Fin (- 1) \<and> b = Fin 0) \<or>
       (\<exists>k<i. t = to_f32 (Fin (of_nat k)) \<and> b = spec_betweenClassVariance hs n k \<and>
          num_greater b (Fin 0) \<and>
          (\<forall>s<k. num_greater b (spec_betweenClassVariance hs n s) \<or>
                 spec_betweenClassVariance hs n s = NaN))"
    by (simp add: otsu_inv_def)
  then have "(t = Fin (- 1) \<and> b = Fin 0) \<or>
       (\<exists>k<Suc i. t = to_f32 (Fin (of_nat k)) \<and> b = spec_betweenClassVariance hs n k \<and>
          num_greater b (Fin 0) \<and>
          (\<forall>s<k. num_greater b (spec_betweenClassVariance hs n s) \<or>
                 spec_betweenClassVariance hs n s = NaN))"
    using less_SucI by blast
  with a show ?thesis unfolding otsu_inv_def by blast
qed

lemma otsu_inv_update:
  assumes inv: "otsu_inv hs n i t b"
    and yes: "num_greater (spec_betweenClassVariance hs n i) b"
  shows "otsu_inv hs n (Suc i) (to_f32 (Fin (of_nat i))) (spec_betweenClassVariance hs n i)"
proof -
  let ?c = "spec_betweenClassVariance hs n i"
  have below: "\<not> num_greater (spec_betweenClassVariance hs n s) b" if "s < i" for s
    using inv that by (simp add: otsu_inv_def)
  have a: "\<not> num_greater (spec_betweenClassVariance hs n s) ?c" if "s < Suc i" for s
  proof (cases "s = i")
    case True
    then show ?thesis by (simp add: num_greater_irrefl)
  next
    case False
    with that have "s < i" by simp
    from num_greater_raise[OF yes below[OF this]] show ?thesis .
  qed
  have b0: "b = Fin 0 \<or> num_greater b (Fin 0)"
    using inv unfolding otsu_inv_def by blast
  have pos: "num_greater ?c (Fin 0)"
  proof (cases "b = Fin 0")
    case True
    with yes show ?thesis by simp
  next
    case False
    with b0 have "num_greater b (Fin 0)" by simp
    from num_greater_trans[OF yes this] show ?thesis .
  qed
  have e: "num_greater ?c (spec_betweenClassVariance hs n s) \<or>
           spec_betweenClassVariance hs n s = NaN" if "s < i" for s
    using num_greater_below[OF yes below[OF that]] .
  have "i < Suc i" by simp
  with pos e a show ?thesis unfolding otsu_inv_def by blast
qed

lemma otsu_loop_inv:
  "dtype histogram = float32 \<Longrightarrow>
   otsu_inv (vals histogram) totalPx index t b \<Longrightarrow> index \<le> tsize histogram - 1 \<Longrightarrow>
   \<exists>t' b'. otsu_loop histogram totalPx index (vec1 t, vec1 b) = (vec1 t', vec1 b') \<and>
            otsu_inv (vals histogram) totalPx (tsize histogram - 1) t' b'"
proof (induction histogram totalPx index "(vec1 t, vec1 b)"
    arbitrary: t b rule: otsu_loop.induct)
  case (1 histogram totalPx index)
  note f = "1.prems"(1) and inv = "1.prems"(2) and bound = "1.prems"(3)
  show ?case
  proof (cases "int index < int (tsize histogram) - 1")
    case False
    with bound have i: "index = tsize histogram - 1" by linarith
    have "otsu_loop histogram totalPx index (vec1 t, vec1 b) = (vec1 t, vec1 b)"
      by (subst otsu_loop.simps) (simp only: False if_False)
    with inv i show ?thesis by blast
  next
    case True
    let ?c = "spec_betweenClassVariance (vals histogram) totalPx index"
    let ?t = "if num_greater ?c b then to_f32 (Fin (of_nat index)) else t"
    let ?b = "if num_greater ?c b then ?c else b"
    have body: "otsu_body histogram totalPx index (vec1 t, vec1 b) = (vec1 ?t, vec1 ?b)"
      by (simp add: otsu_body_scalar[OF f])
    have inv': "otsu_inv (vals histogram) totalPx (index + 1) ?t ?b"
      using otsu_inv_keep[OF inv] otsu_inv_update[OF inv] by simp
    have le: "index + 1 \<le> tsize histogram - 1" using True by linarith
    from "1.hyps"[OF True body f inv' le]
    obtain t' b' where
      rest: "otsu_loop histogram totalPx (index + 1) (vec1 ?t, vec1 ?b) = (vec1 t', vec1 b')"
      and fin: "otsu_inv (vals histogram) totalPx (tsize histogram - 1) t' b'"
      by (elim exE conjE)
    have "otsu_loop histogram totalPx index (vec1 t, vec1 b) =
        otsu_loop histogram totalPx (index + 1)
          (otsu_body histogram totalPx index (vec1 t, vec1 b))"
      by (subst otsu_loop.simps) (simp only: True if_True)
    also have "\<dots> = (vec1 t', vec1 b')"
      by (simp only: body rest)
    finally show ?thesis using fin by (intro exI conjI)
  qed
qed

lemma otsu_start:
  "(tf_tensor1d [Fin (- 1)], tf_tensor1d [Fin 0]) = (vec1 (Fin (- 1)), vec1 (Fin 0))"
  by (simp add: tf_tensor1d_def vec1_def f32_small)

lemma otsu_result:
  assumes f: "dtype histogram = float32"
  shows "\<exists>t b. otsu histogram totalPx = vec1 t \<and>
         otsu_inv (vals histogram) totalPx (tsize histogram - 1) t b"
proof -
  have "otsu_inv (vals histogram) totalPx 0 (Fin (- 1)) (Fin 0)"
    by (simp add: otsu_inv_def)
  from otsu_loop_inv[OF f this le0]
  obtain t' b' where
    "otsu_loop histogram totalPx 0 (vec1 (Fin (- 1)), vec1 (Fin 0)) = (vec1 t', vec1 b')"
    "otsu_inv (vals histogram) totalPx (tsize histogram - 1) t' b'"
    by (elim exE conjE)
  then show ?thesis by (intro exI[of _ t'] exI[of _ b']) (simp add: otsu_def otsu_start)
qed

section \<open>The threshold and the result of an accepted call\<close>

lemma otsu_value:
  assumes f: "dtype histogram = float32" and n: "tsize histogram \<le> 2 ^ 24"
  shows "\<exists>t. otsu histogram totalPx = vec1 t \<and>
       (t = Fin (- 1) \<or> (\<exists>k<tsize histogram - 1. t = Fin (of_nat k)))"
proof -
  from otsu_result[OF f, of totalPx] obtain t b where
    r: "otsu histogram totalPx = vec1 t"
    and inv: "otsu_inv (vals histogram) totalPx (tsize histogram - 1) t b"
    by (elim exE conjE)
  from inv have "t = Fin (- 1) \<or> (\<exists>k<tsize histogram - 1. t = to_f32 (Fin (of_nat k)))"
    unfolding otsu_inv_def by blast
  then have "t = Fin (- 1) \<or> (\<exists>k<tsize histogram - 1. t = Fin (of_nat k))"
  proof
    assume "t = Fin (- 1)"
    then show ?thesis by simp
  next
    assume "\<exists>k<tsize histogram - 1. t = to_f32 (Fin (of_nat k))"
    then obtain k where k: "k < tsize histogram - 1" and t: "t = to_f32 (Fin (of_nat k))"
      by blast
    from k n have "k < 2 ^ 24" by linarith
    from to_f32_nat[OF this] t have "t = Fin (of_nat k)" by simp
    with k show ?thesis by blast
  qed
  with r show ?thesis by blast
qed

lemma initial_threshold_value:
  "initial_threshold v = vec1 (num_mul (to_f32 v) (Fin 255))"
  by (simp add: initial_threshold_def tf_mul_def tf_tensor1d_def tf_scalar_def vec1_def
      binop_single_right broadcast_shape_Nil upcast_float conv_same f32_small)

lemma select_threshold_binary:
  "select_threshold triangle img ''binary'' v = Inr (vec1 (num_mul (to_f32 v) (Fin 255)))"
  by (simp add: select_threshold_def initial_threshold_value)

lemma histogram_of_cases:
  "histogram_of g = Inl NegativeInput \<or>
   (\<exists>h. histogram_of g = Inr h \<and> dtype h = float32 \<and> shape h = [256] \<and>
        vals h = map (bucket_count (vals (tf_cast (tf_round g) int32))) [0..<256])"
  by (simp add: histogram_of_def tf_bincount_def)

lemma select_threshold_otsu:
  "select_threshold triangle img ''otsu'' v = Inl NegativeInput \<or>
   (\<exists>t. select_threshold triangle img ''otsu'' v = Inr (vec1 t) \<and>
       (t = Fin (- 1) \<or> (\<exists>k<255. t = Fin (of_nat k))))"
proof -
  from histogram_of_cases[of "grayscale_of img"] show ?thesis
  proof
    assume "histogram_of (grayscale_of img) = Inl NegativeInput"
    then show ?thesis by (simp add: select_threshold_def)
  next
    assume "\<exists>h. histogram_of (grayscale_of img) = Inr h \<and> dtype h = float32 \<and>
        shape h = [256] \<and>
        vals h = map (bucket_count (vals (tf_cast (tf_round (grayscale_of img)) int32))) [0..<256]"
    then obtain h where h: "histogram_of (grayscale_of img) = Inr h"
      and f: "dtype h = float32" and s: "shape h = [256]" by blast
    from s have n: "tsize h = 256" by (simp add: tsize_def)
    then have le: "tsize h \<le> 2 ^ 24" by simp
    from otsu_value[OF f le, of "totalPixelsInImage img"] n
    have "\<exists>t. otsu h (totalPixelsInImage img) = vec1 t \<and>
       (t = Fin (- 1) \<or> (\<exists>k<255. t = Fin (of_nat k)))" by simp
    then show ?thesis using h by (simp add: select_threshold_def)
  qed
qed

lemma threshold_shape:
  assumes "valid_image img"
  shows "broadcast_shape (shape (grayscale_of img)) [Suc 0] =
         [shape img ! 0, shape img ! 1, 1]"
proof -
  from assms have "shape (grayscale_of img) = [shape img ! 0, shape img ! 1, 1]"
    by (simp add: valid_image_def grayscale_shape)
  then show ?thesis by (simp add: broadcast_shape_one)
qed

lemma threshold_accepted:
  assumes v: "valid_image img" and m: "method = ''otsu'' \<or> method = ''binary''"
    and t: "select_threshold triangle img method threshValue = Inr (vec1 t)"
  shows "threshold triangle img method inverted threshValue =
         Inr \<lparr>shape = [shape img ! 0, shape img ! 1, 1], dtype = int32,
              vals = map (\<lambda>g. if (if inverted
                                   then num_lessEqual (conv float32 (dtype (grayscale_of img)) g) t
                                   else num_greater (conv float32 (dtype (grayscale_of img)) g) t)
                               then Fin 255 else Fin 0) (vals (grayscale_of img))\<rparr>"
proof -
  from v m have val: "validate img method = Inr ()" by (simp add: validate_valid)
  show ?thesis
    unfolding threshold_Inr[OF val t] threshold_shape[OF v] ..
qed

lemma threshold_cases:
  assumes v: "valid_image img" and m: "method = ''otsu'' \<or> method = ''binary''"
  shows "(method = ''otsu'' \<and>
          select_threshold triangle img method threshValue = Inl NegativeInput \<and>
          threshold triangle img method inverted threshValue = Inl NegativeInput) \<or>
     (\<exists>t. select_threshold triangle img method threshValue = Inr (vec1 t) \<and>
        threshold triangle img method inverted threshValue =
         Inr \<lparr>shape = [shape img ! 0, shape img ! 1, 1], dtype = int32,
              vals = map (\<lambda>g. if (if inverted
                                   then num_lessEqual (conv float32 (dtype (grayscale_of img)) g) t
                                   else num_greater (conv float32 (dtype (grayscale_of img)) g) t)
                               then Fin 255 else Fin 0) (vals (grayscale_of img))\<rparr>)"
proof -
  from v m have val: "validate img method = Inr ()" by (simp add: validate_valid)
  show ?thesis
  proof (cases "method = ''otsu''")
    case True
    from select_threshold_otsu[of triangle img threshValue] show ?thesis
    proof
      assume e: "select_threshold triangle img ''otsu'' threshValue = Inl NegativeInput"
      with True have e': "select_threshold triangle img method threshValue = Inl NegativeInput"
        by simp
      from threshold_select_error[OF val e'] True e' show ?thesis by simp
    next
      assume "\<exists>t. select_threshold triangle img ''otsu'' threshValue = Inr (vec1 t) \<and>
       (t = Fin (- 1) \<or> (\<exists>k<255. t = Fin (of_nat k)))"
      then obtain t where "select_threshold triangle img method threshValue = Inr (vec1 t)"
        using True by blast
      from this threshold_accepted[OF v m this] show ?thesis by blast
    qed
  next
    case False
    with m have b: "method = ''binary''" by simp
    have "select_threshold triangle img method threshValue =
          Inr (vec1 (num_mul (to_f32 threshValue) (Fin 255)))"
      unfolding b by (rule select_threshold_binary)
    from this threshold_accepted[OF v m this] show ?thesis by blast
  qed
qed

section \<open>Comparisons and errors\<close>

lemma num_lessEqual_iff: "x \<noteq> NaN \<Longrightarrow> y \<noteq> NaN \<Longrightarrow> num_lessEqual x y = (\<not> num_greater x y)"
  by (cases x; cases y) auto

lemma exact_mul_255: "x \<noteq> NaN \<Longrightarrow> exact_mul x (Fin 255) \<noteq> NaN"
  by (cases x) auto

lemma num_mul_255: "v \<noteq> NaN \<Longrightarrow> num_mul (to_f32 v) (Fin 255) \<noteq> NaN"
  unfolding num_mul_def by (intro to_f32_not_NaN exact_mul_255)

lemma vec1_inject: "vec1 x = vec1 y \<Longrightarrow> x = y"
  by (simp add: vec1_def)

lemma threshold_not_nan:
  assumes "method = ''otsu'' \<or> (method = ''binary'' \<and> threshValue \<noteq> NaN)"
    and "select_threshold triangle img method threshValue = Inr (vec1 t)"
  shows "t \<noteq> NaN"
proof (cases "method = ''otsu''")
  case True
  from select_threshold_otsu[of triangle img threshValue] assms(2) True
  have "t = Fin (- 1) \<or> (\<exists>k<255. t = Fin (of_nat k))"
    by (auto dest: vec1_inject)
  then show ?thesis by auto
next
  case False
  with assms(1) have m: "method = ''binary''" and v: "threshValue \<noteq> NaN" by auto
  from assms(2) m have "t = num_mul (to_f32 threshValue) (Fin 255)"
    by (simp add: select_threshold_binary vec1_inject)
  with v show ?thesis by (simp add: num_mul_255)
qed

lemma complement_comparison:
  assumes "g \<noteq> NaN" and "t \<noteq> NaN"
  shows "complement255 (if num_greater g t then Fin 255 else Fin 0) =
         (if num_lessEqual g t then Fin 255 else Fin 0)"
  using assms by (simp add: complement255_def num_lessEqual_iff)

lemma conv_not_NaN: "g \<noteq> NaN \<Longrightarrow> conv rt d g \<noteq> NaN"
  by (simp add: conv_def to_f32_not_NaN)

lemma threshold_Inl_iff:
  "threshold triangle img method inverted v = Inl e \<longleftrightarrow>
     validate img method = Inl e \<or>
     (validate img method = Inr () \<and> select_threshold triangle img method v = Inl e)"
  by (simp add: threshold_def threshold_run_def Let_def split: sum.splits)

lemma histogram_of_Inl_iff:
  "histogram_of g = Inl e \<longleftrightarrow>
     e = NegativeInput \<and>
     (\<exists>v\<in>set (vals (tf_cast (tf_round g) int32)). num_greater (Fin 0) v)"
  by (auto simp: histogram_of_def tf_bincount_def)

lemma select_threshold_Inl_iff:
  "select_threshold triangle img method v = Inl e \<longleftrightarrow>
     (method = ''otsu'' \<or> method = ''triangle'') \<and> histogram_of (grayscale_of img) = Inl e"
  by (simp add: select_threshold_def Let_def split: sum.splits)

lemma threshold_error_independent:
  "threshold triangle img method inverted v = Inl e \<longleftrightarrow>
   threshold triangle img method inverted' v' = Inl e"
  by (simp add: threshold_Inl_iff select_threshold_Inl_iff)

section \<open>Histograms with a single occupied bucket\<close>

lemma num_mul_NaN: "num_mul x NaN = NaN"
  by (cases x) (simp_all add: num_mul_def)

lemma num_sub_NaN: "num_sub NaN y = NaN"
  by (simp add: num_sub_def)

lemma num_div_zero: "s = Fin 0 \<or> s = NaN \<Longrightarrow> num_div s (Fin 0) = NaN"
  by (auto simp: num_div_def)

lemma num_mul_zero: "num_mul (Fin 0) k = Fin 0 \<or> num_mul (Fin 0) k = NaN"
  by (cases k) (simp_all add: num_mul_def f32_0)

lemma add64_zero:
  "acc = Fin 0 \<or> acc = NaN \<Longrightarrow> x = Fin 0 \<or> x = NaN \<Longrightarrow>
   add64 acc x = Fin 0 \<or> add64 acc x = NaN"
  by (auto simp: add64_def f64_0)

lemma foldl_zero:
  "\<forall>x\<in>set xs. x = Fin 0 \<or> x = NaN \<Longrightarrow> acc = Fin 0 \<or> acc = NaN \<Longrightarrow>
   foldl add64 acc xs = Fin 0 \<or> foldl add64 acc xs = NaN"
proof (induction xs arbitrary: acc)
  case Nil
  then show ?case by simp
next
  case (Cons x xs)
  from Cons.prems have x: "x = Fin 0 \<or> x = NaN" and r: "\<forall>x\<in>set xs. x = Fin 0 \<or> x = NaN"
    by simp_all
  from add64_zero[OF Cons.prems(2) x] have "add64 acc x = Fin 0 \<or> add64 acc x = NaN" .
  from Cons.IH[OF r this] show ?case by simp
qed

lemma foldl_all_zero: "\<forall>x\<in>set xs. x = Fin 0 \<Longrightarrow> foldl add64 (Fin 0) xs = Fin 0"
  by (induction xs) (auto simp: add64_def f64_0)

lemma num_sum_zero: "\<forall>x\<in>set xs. x = Fin 0 \<Longrightarrow> num_sum xs = Fin 0"
  by (simp add: num_sum_def foldl_all_zero f32_0)

lemma num_sum_weighted_zero:
  assumes "\<forall>x\<in>set xs. x = Fin 0"
  shows "num_sum (weighted xs ks) = Fin 0 \<or> num_sum (weighted xs ks) = NaN"
proof -
  have "\<forall>y\<in>set (weighted xs ks). y = Fin 0 \<or> y = NaN"
  proof
    fix y assume "y \<in> set (weighted xs ks)"
    then obtain x k where "(x, k) \<in> set (zip xs ks)" and y: "y = num_mul x k"
      by (auto simp: weighted_def)
    then have "x \<in> set xs" by (auto dest: set_zip_leftD)
    with assms have "x = Fin 0" by blast
    with y num_mul_zero[of k] show "y = Fin 0 \<or> y = NaN" by simp
  qed
  from foldl_zero[OF this, of "Fin 0"]
  have "foldl add64 (Fin 0) (weighted xs ks) = Fin 0 \<or>
        foldl add64 (Fin 0) (weighted xs ks) = NaN" by simp
  then show ?thesis by (auto simp: num_sum_def f32_0)
qed

lemma variance_first_empty:
  assumes "\<forall>x\<in>set (take (t + 1) hs). x = Fin 0"
  shows "spec_betweenClassVariance hs n t = NaN"
proof -
  have a: "num_sum (take (t + 1) hs) = Fin 0" using assms by (rule num_sum_zero)
  have b: "num_div (num_sum (weighted (take (t + 1) hs) ks)) (Fin 0) = NaN" for ks
    using num_sum_weighted_zero[OF assms] by (rule num_div_zero)
  show ?thesis
    unfolding spec_betweenClassVariance_def Let_def a b
    by (simp add: num_sub_NaN num_mul_NaN)
qed

lemma num_sub_NaN_right: "num_sub x NaN = NaN"
  by (cases x) (simp_all add: num_sub_def)

lemma variance_second_empty:
  assumes "\<forall>x\<in>set (drop (t + 1) hs). x = Fin 0"
  shows "spec_betweenClassVariance hs n t = NaN"
proof -
  have a: "num_sum (drop (t + 1) hs) = Fin 0" using assms by (rule num_sum_zero)
  have b: "num_div (num_sum (weighted (drop (t + 1) hs) ks)) (Fin 0) = NaN" for ks
    using num_sum_weighted_zero[OF assms] by (rule num_div_zero)
  show ?thesis
    unfolding spec_betweenClassVariance_def Let_def a b
    by (simp add: num_sub_NaN_right num_mul_NaN)
qed

lemma variance_single_bucket:
  assumes "\<forall>k<length hs. k \<noteq> c \<longrightarrow> hs ! k = Fin 0"
  shows "spec_betweenClassVariance hs n t = NaN"
proof (cases "t < c")
  case True
  have "\<forall>x\<in>set (take (t + 1) hs). x = Fin 0"
  proof
    fix x assume "x \<in> set (take (t + 1) hs)"
    then obtain i where i: "i < length (take (t + 1) hs)" and x: "x = take (t + 1) hs ! i"
      by (auto simp: in_set_conv_nth)
    from i have "i < length hs" and "i < t + 1" by simp_all
    with True assms x show "x = Fin 0" by simp
  qed
  then show ?thesis by (rule variance_first_empty)
next
  case False
  have "\<forall>x\<in>set (drop (t + 1) hs). x = Fin 0"
  proof
    fix x assume "x \<in> set (drop (t + 1) hs)"
    then obtain i where i: "i < length (drop (t + 1) hs)" and x: "x = drop (t + 1) hs ! i"
      by (auto simp: in_set_conv_nth)
    from i have l: "t + 1 + i < length hs" by simp
    with x have "x = hs ! (t + 1 + i)" by simp
    moreover from False have "t + 1 + i \<noteq> c" by simp
    ultimately show "x = Fin 0" using assms l by simp
  qed
  then show ?thesis by (rule variance_second_empty)
qed

lemma otsu_no_positive_variance:
  assumes f: "dtype histogram = float32"
    and "\<forall>s<tsize histogram - 1.
             \<not> num_greater (spec_betweenClassVariance (vals histogram) totalPx s) (Fin 0)"
  shows "otsu histogram totalPx = vec1 (Fin (- 1))"
proof -
  from otsu_result[OF f, of totalPx] obtain t b where
    r: "otsu histogram totalPx = vec1 t"
    and inv: "otsu_inv (vals histogram) totalPx (tsize histogram - 1) t b"
    by (elim exE conjE)
  from inv assms(2) have "t = Fin (- 1)" unfolding otsu_inv_def by blast
  with r show ?thesis by simp
qed

lemma otsu_single_bucket:
  assumes "dtype histogram = float32"
    and "\<forall>k<length (vals histogram). k \<noteq> c \<longrightarrow> vals histogram ! k = Fin 0"
  shows "otsu histogram totalPx = vec1 (Fin (- 1))"
  by (rule otsu_no_positive_variance[OF assms(1)]) (simp add: variance_single_bucket[OF assms(2)])

section \<open>Evaluation of float32 arithmetic on numerals\<close>

lemma floor_rat_numeral:
  "\<lfloor>numeral a / numeral b :: rat\<rfloor> = numeral a div numeral b"
  using floor_divide_of_int_eq[of "numeral a" "numeral b", where ?'a = rat] by simp

lemma round_half_even_unfold:
  "round_half_even x =
     (if x - of_int \<lfloor>x\<rfloor> < 1/2 then \<lfloor>x\<rfloor>
      else if 1/2 < x - of_int \<lfloor>x\<rfloor> then \<lfloor>x\<rfloor> + 1
      else if even \<lfloor>x\<rfloor> then \<lfloor>x\<rfloor> else \<lfloor>x\<rfloor> + 1)"
  by (simp add: round_half_even_def Let_def)

lemma round_float_unfold:
  "round_float p emin emax q =
     (if q = 0 then Fin 0
      else if pow2 (emax + 1) \<le>
              of_int (round_half_even (\<bar>q\<bar> / pow2 (max (expo \<bar>q\<bar>) emin - (int p - 1)))) *
              pow2 (max (expo \<bar>q\<bar>) emin - (int p - 1))
           then (if 0 < q then PInf else NInf)
           else Fin (if 0 < q
                     then of_int (round_half_even (\<bar>q\<bar> / pow2 (max (expo \<bar>q\<bar>) emin - (int p - 1)))) *
                          pow2 (max (expo \<bar>q\<bar>) emin - (int p - 1))
                     else - (of_int (round_half_even (\<bar>q\<bar> / pow2 (max (expo \<bar>q\<bar>) emin - (int p - 1)))) *
                          pow2 (max (expo \<bar>q\<bar>) emin - (int p - 1)))))"
  by (simp add: round_float_def Let_def)

lemmas float_eval = f32_def f64_def round_float_unfold expo.simps pow2_def round_half_even_unfold
  floor_rat_numeral num_add_def num_sub_def num_mul_def num_div_def add64_def

lemma rgb_grayscale:
  "grayscale_of rgb_image =
     \<lparr>shape = [1, 2, 1], dtype = float32,
      vals = [Fin (3252889 / 16384), Fin (15411813 / 524288)]\<rparr>"
proof -
  have s: "shape rgb_image = [1, 2, 3]" and wf: "wf_tensor rgb_image"
    by (simp_all add: rgb_image_def wf_tensor_def)
  have u: "[0..<2] = [0, 1]" by (simp add: upt_rec)
  show ?thesis
    unfolding grayscale_three_channels[OF s wf]
    by (simp add: u rgb_image_def RED_INTENCITY_COEF_def GREEN_INTENCITY_COEF_def
        BLUE_INTENCITY_COEF_def conv_def float_eval)
qed

lemma small_variances:
  "spec_betweenClassVariance (vals small_histogram) (Fin 4) 0 = NaN"
  "spec_betweenClassVariance (vals small_histogram) (Fin 4) 1 = Fin (4281685 / 4194304)"
  "spec_betweenClassVariance (vals small_histogram) (Fin 4) 2 = Fin (4281685 / 4194304)"
  "spec_betweenClassVariance (vals small_histogram) (Fin 4) 3 = Fin (4369067 / 8388608)"
  by (simp_all add: spec_betweenClassVariance_def small_histogram_def num_sum_def weighted_def
      first_intensities_def second_intensities_def float_eval)

lemma rounded_variances:
  "spec_betweenClassVariance (vals rounded_histogram) (Fin 4) 0 = NaN"
  "spec_betweenClassVariance (vals rounded_histogram) (Fin 4) 1 = Fin (11184809 / 33554432)"
  "spec_betweenClassVariance (vals rounded_histogram) (Fin 4) 2 = Fin (11184811 / 33554432)"
  by (simp_all add: spec_betweenClassVariance_def rounded_histogram_def num_sum_def weighted_def
      first_intensities_def second_intensities_def float_eval)

section \<open>The sample inputs\<close>

lemma valid_example: "valid_image example_image"
  by (simp add: valid_image_def example_image_def extent_def)

lemma valid_rgb: "valid_image rgb_image"
  by (simp add: valid_image_def rgb_image_def extent_def)

lemma valid_constant: "valid_image constant_image"
  by (simp add: valid_image_def constant_image_def extent_def)

lemma valid_negative: "valid_image negative_image"
  by (simp add: valid_image_def negative_image_def extent_def)

lemma valid_nan: "valid_image nan_image"
  by (simp add: valid_image_def nan_image_def extent_def)

lemma validate_triangle: "\<exists>e. validate img ''triangle'' = Inl (InvalidArgument e)"
  by (simp add: validate_def)

lemma gray_example: "grayscale_of example_image = example_image"
  by (simp add: grayscale_of_def example_image_def extent_def)

lemma gray_constant: "grayscale_of constant_image = constant_image"
  by (simp add: grayscale_of_def constant_image_def extent_def)

lemma gray_negative: "grayscale_of negative_image = negative_image"
  by (simp add: grayscale_of_def negative_image_def extent_def)

lemma gray_nan: "grayscale_of nan_image = nan_image"
  by (simp add: grayscale_of_def nan_image_def extent_def)

lemma half_255: "num_mul (to_f32 (Fin (1 / 2))) (Fin 255) = Fin (255 / 2)"
  by (simp add: float_eval)

lemma two_255: "num_mul (to_f32 (Fin 2)) (Fin 255) = Fin 510"
  by (simp add: float_eval)

lemma minus_255: "num_mul (to_f32 (Fin (- 1))) (Fin 255) = Fin (- 255)"
  by (simp add: float_eval)

lemma NaN_255: "num_mul (to_f32 NaN) (Fin 255) = NaN"
  by (simp add: num_mul_def)

lemma huge_255: "num_mul (to_f32 (Fin (2 ^ 127))) (Fin 255) = PInf"
  by (simp add: float_eval)

lemma margin_255: "num_mul (to_f32 (Fin (8388609 / 16777216))) (Fin 255) = Fin (8355841 / 65536)"
  by (simp add: float_eval)

lemma example_binary:
  "threshold triangle example_image ''binary'' inverted (Fin (1 / 2)) =
     Inr \<lparr>shape = [2, 2, 1], dtype = int32,
          vals = (if inverted then [Fin 255, Fin 0, Fin 0, Fin 255]
                  else [Fin 0, Fin 255, Fin 255, Fin 0])\<rparr>"
  unfolding threshold_accepted[OF valid_example _ select_threshold_binary, simplified]
    gray_example half_255
  by (simp add: example_image_def conv_def)

lemma rgb_binary:
  "threshold triangle rgb_image ''binary'' inverted (Fin (1 / 2)) =
     Inr \<lparr>shape = [1, 2, 1], dtype = int32,
          vals = (if inverted then [Fin 0, Fin 255] else [Fin 255, Fin 0])\<rparr>"
  unfolding threshold_accepted[OF valid_rgb _ select_threshold_binary, simplified]
    rgb_grayscale half_255
  by (simp add: rgb_image_def conv_def)

lemma int32_of_int:
  assumes "- (2 ^ 31) \<le> m" and "m < 2 ^ 31"
  shows "num_toInt32 (num_round (Fin (of_int m))) = Fin (of_int m)"
proof -
  have t: "(if (0::rat) \<le> of_int m then \<lfloor>of_int m :: rat\<rfloor> else \<lceil>of_int m :: rat\<rceil>) = m"
    by simp
  have "(m + 2 ^ 31) mod 2 ^ 32 = m + 2 ^ 31"
    using assms by (intro mod_pos_pos_trivial) simp_all
  then show ?thesis
    unfolding num_round.simps round_half_even_int num_toInt32.simps Let_def t by simp
qed

lemma int32_small: "num_toInt32 (num_round (Fin (- 1))) = Fin (- 1)"
  "num_toInt32 (num_round (Fin 5)) = Fin 5" "num_toInt32 (num_round (Fin 10)) = Fin 10"
  "num_toInt32 (num_round (Fin 200)) = Fin 200" "num_toInt32 (num_round (Fin 250)) = Fin 250"
  using int32_of_int[of "- 1"] int32_of_int[of 5] int32_of_int[of 10] int32_of_int[of 200]
    int32_of_int[of 250]
  by simp_all

lemma negative_histogram: "histogram_of negative_image = Inl NegativeInput"
  by (simp add: histogram_of_Inl_iff tf_cast_def tf_round_def negative_image_def int32_small
      del: num_round.simps num_toInt32.simps)

lemma negative_otsu:
  "threshold triangle negative_image ''otsu'' inverted v = Inl NegativeInput"
  using valid_negative
  by (simp add: threshold_Inl_iff select_threshold_Inl_iff validate_valid gray_negative
      negative_histogram)

lemma example_histogram: "\<exists>h. histogram_of example_image = Inr h"
proof -
  have "histogram_of example_image \<noteq> Inl NegativeInput"
    by (simp add: histogram_of_Inl_iff tf_cast_def tf_round_def example_image_def int32_small
        del: num_round.simps num_toInt32.simps)
  with histogram_of_cases[of example_image] show ?thesis by blast
qed

lemma example_otsu: "\<exists>out. threshold triangle example_image ''otsu'' inverted v = Inr out"
proof -
  from example_histogram obtain h where h: "histogram_of example_image = Inr h" ..
  have "select_threshold triangle example_image ''otsu'' v \<noteq> Inl NegativeInput"
    by (simp add: select_threshold_Inl_iff gray_example h)
  with threshold_cases[OF valid_example, of "''otsu''" triangle v inverted]
  show ?thesis by auto
qed

lemma bucket_count_constant:
  "bucket_count [Fin 5, Fin 5, Fin 5, Fin 5] k = (if k = 5 then Fin 4 else Fin 0)"
proof (cases "k = 5")
  case True
  then show ?thesis by (simp add: bucket_count_def float_eval)
next
  case False
  then have "of_nat k \<noteq> (5::rat)" by (metis of_nat_eq_iff of_nat_numeral)
  with False show ?thesis by (simp add: bucket_count_def)
qed

lemma constant_image_histogram: "histogram_of constant_image = Inr constant_histogram"
proof -
  have v: "vals (tf_cast (tf_round constant_image) int32) = [Fin 5, Fin 5, Fin 5, Fin 5]"
    by (simp add: tf_cast_def tf_round_def constant_image_def int32_small
        del: num_round.simps num_toInt32.simps)
  have "map (bucket_count [Fin 5, Fin 5, Fin 5, Fin 5]) [0..<256] =
        replicate 5 (Fin 0) @ [Fin 4] @ replicate 250 (Fin 0)"
    by (rule nth_equalityI) (auto simp: bucket_count_constant nth_append nth_Cons')
  then show ?thesis
    by (simp add: histogram_of_def tf_bincount_def v constant_histogram_def)
qed

lemma constant_histogram_single:
  "\<forall>k<length (vals constant_histogram). k \<noteq> 5 \<longrightarrow> vals constant_histogram ! k = Fin 0"
  by (auto simp: constant_histogram_def nth_append nth_Cons')

lemma constant_histogram_otsu: "otsu constant_histogram n = vec1 (Fin (- 1))"
  by (rule otsu_single_bucket[OF _ constant_histogram_single]) (simp add: constant_histogram_def)

lemma constant_total: "totalPixelsInImage constant_image = Fin 4"
  by (simp add: totalPixelsInImage_def constant_image_def extent_def float_eval)

lemma constant_image_otsu:
  "select_threshold triangle constant_image ''otsu'' v = Inr (vec1 (Fin (- 1)))"
  by (simp add: select_threshold_def gray_constant constant_image_histogram
      constant_histogram_otsu)

section \<open>The claims\<close>

text \<open>
  C1. The claim: a call with method \<open>triangle\<close> passes validation and computes a
  triangle threshold. The code does the opposite: the assertion of lines 106-108 admits
  only \<open>otsu\<close> and \<open>binary\<close>, so the call fails with \<open>InvalidArgument\<close> for every
  image, and for a valid image the error is the one about the method.
\<close>

theorem triangle_method_rejected:
  "(\<exists>e. threshold triangle img ''triangle'' inverted threshValue = Inl (InvalidArgument e)) \<and>
   threshold triangle example_image ''triangle'' inverted threshValue =
     Inl (InvalidArgument (BadMethod ''triangle''))"
proof
  from validate_triangle[of img] obtain e where
    "validate img ''triangle'' = Inl (InvalidArgument e)" ..
  then have "threshold triangle img ''triangle'' inverted threshValue = Inl (InvalidArgument e)"
    by (rule threshold_invalid)
  then show "\<exists>e. threshold triangle img ''triangle'' inverted threshValue =
               Inl (InvalidArgument e)" ..
next
  have "validate example_image ''triangle'' = Inl (InvalidArgument (BadMethod ''triangle''))"
    by (simp add: validate_def example_image_def extent_def)
  then show "threshold triangle example_image ''triangle'' inverted threshValue =
     Inl (InvalidArgument (BadMethod ''triangle''))"
    by (rule threshold_invalid)
qed

text \<open>
  C2. The claim: the returned array has the shape of the image, a \<open>[h, w, 3]\<close> image
  giving a \<open>[h, w, 3]\<close> result; the doc comment of the function promises the same
  (lines 58 and 67-68). The code does otherwise. Every array it returns is integer, holds
  only 0 and 255, and has the shape \<open>[height, width, 1]\<close>: the comparison runs on the
  grayscale image, which has a single channel (lines 110-118), and nothing restores the
  channels afterwards. So for a three-channel image the shape of the result is not the
  shape of the image; the image of shape \<open>[1, 2, 3]\<close> gives a result of shape
  \<open>[1, 2, 1]\<close>.
\<close>

theorem colour_image_loses_channels:
  "(threshold triangle img method inverted threshValue = Inr out \<longrightarrow>
      list_all (\<lambda>x. x = Fin 0 \<or> x = Fin 255) (vals out) \<and> dtype out = int32 \<and>
      shape out = [shape img ! 0, shape img ! 1, 1] \<and>
      (extent (shape img) 2 = Some 3 \<longrightarrow>
         shape out \<noteq> shape img \<and> \<not> claimed_output img (Inr out))) \<and>
   valid_image rgb_image \<and> shape rgb_image = [1, 2, 3] \<and>
   threshold triangle0 rgb_image ''binary'' False (Fin (1 / 2)) =
     Inr \<lparr>shape = [1, 2, 1], dtype = int32, vals = [Fin 255, Fin 0]\<rparr>"
proof (intro conjI impI)
  assume r: "threshold triangle img method inverted threshValue = Inr out"
  have val: "validate img method = Inr ()"
  proof (cases "validate img method")
    case (Inl e)
    from threshold_invalid[OF this, of triangle inverted threshValue] r show ?thesis by simp
  next
    case (Inr u)
    then show ?thesis by simp
  qed
  then have v: "valid_image img" and m: "method = ''otsu'' \<or> method = ''binary''"
    by (simp_all add: validate_valid)
  from threshold_cases[OF v m, of triangle threshValue inverted] r
  obtain t where
    "out = \<lparr>shape = [shape img ! 0, shape img ! 1, 1], dtype = int32,
            vals = map (\<lambda>g. if (if inverted
                                  then num_lessEqual (conv float32 (dtype (grayscale_of img)) g) t
                                  else num_greater (conv float32 (dtype (grayscale_of img)) g) t)
                             then Fin 255 else Fin 0) (vals (grayscale_of img))\<rparr>"
    by auto
  then have a: "list_all (\<lambda>x. x = Fin 0 \<or> x = Fin 255) (vals out)"
    and b: "dtype out = int32" and c: "shape out = [shape img ! 0, shape img ! 1, 1]"
    by (auto simp: list_all_iff)
  from a show "list_all (\<lambda>x. x = Fin 0 \<or> x = Fin 255) (vals out)" .
  from b show "dtype out = int32" .
  from c show "shape out = [shape img ! 0, shape img ! 1, 1]" .
  assume three: "extent (shape img) 2 = Some 3"
  then have "shape img ! 2 = 3" by (simp add: extent_def split: if_splits)
  with c have "shape out ! 2 \<noteq> shape img ! 2" by simp
  then show ne: "shape out \<noteq> shape img" by auto
  then show "\<not> claimed_output img (Inr out)" by (simp add: claimed_output_def)
next
  show "valid_image rgb_image" by (rule valid_rgb)
  show "shape rgb_image = [1, 2, 3]" by (simp add: rgb_image_def)
  show "threshold triangle0 rgb_image ''binary'' False (Fin (1 / 2)) =
     Inr \<lparr>shape = [1, 2, 1], dtype = int32, vals = [Fin 255, Fin 0]\<rparr>"
    by (simp add: rgb_binary)
qed

text \<open>The same image, inverted.\<close>

theorem colour_image_loses_channels_witness:
  "threshold triangle0 rgb_image ''binary'' True (Fin (1 / 2)) =
     Inr \<lparr>shape = [1, 2, 1], dtype = int32, vals = [Fin 0, Fin 255]\<rparr> \<and>
   extent (shape rgb_image) 2 = Some 3 \<and>
   shape \<lparr>shape = [1, 2, 1], dtype = int32, vals = [Fin 0, Fin 255]\<rparr> \<noteq> shape rgb_image \<and>
   \<not> claimed_output rgb_image
       (Inr \<lparr>shape = [1, 2, 1], dtype = int32, vals = [Fin 0, Fin 255]\<rparr>)"
proof -
  let ?out = "\<lparr>shape = [1, 2, 1], dtype = int32, vals = [Fin 0, Fin 255]\<rparr>"
  have r: "threshold triangle0 rgb_image ''binary'' True (Fin (1 / 2)) = Inr ?out"
    by (simp add: rgb_binary)
  have e: "extent (shape rgb_image) 2 = Some 3" by (simp add: rgb_image_def extent_def)
  from colour_image_loses_channels[of triangle0 rgb_image "''binary''" True "Fin (1 / 2)" ?out]
    r e
  have "shape ?out \<noteq> shape rgb_image \<and> \<not> claimed_output rgb_image (Inr ?out)" by blast
  with r e show ?thesis by blast
qed

text \<open>
  C3. With method \<open>binary\<close> and a valid image, the call succeeds and an output pixel is
  255 exactly when the corresponding grayscale pixel satisfies the comparison with
  \<open>threshValue * 255\<close> (\<open>\<le>\<close> when inverted, \<open>>\<close> otherwise), and 0 otherwise. The
  numbers are the float32 ones of the array library: \<open>threshValue\<close> is stored as a
  float32, its product with 255 is the float32 product, and an integer pixel is
  converted to float32 for the comparison. The image \<^verbatim>\<open>[[10,200],[250,5]]\<close> with
  \<open>threshValue = 0.5\<close>, not inverted, gives \<^verbatim>\<open>[[0,255],[255,0]]\<close>.
\<close>

theorem binary_threshold:
  "(valid_image img \<longrightarrow>
      threshold triangle img ''binary'' inverted threshValue =
        Inr \<lparr>shape = [shape img ! 0, shape img ! 1, 1], dtype = int32,
             vals = map (\<lambda>g. if (if inverted
                                   then num_lessEqual (conv float32 (dtype (grayscale_of img)) g)
                                          (num_mul (to_f32 threshValue) (Fin 255))
                                   else num_greater (conv float32 (dtype (grayscale_of img)) g)
                                          (num_mul (to_f32 threshValue) (Fin 255)))
                              then Fin 255 else Fin 0)
                      (vals (grayscale_of img))\<rparr>) \<and>
   threshold triangle example_image ''binary'' False (Fin (1 / 2)) =
     Inr \<lparr>shape = [2, 2, 1], dtype = int32, vals = [Fin 0, Fin 255, Fin 255, Fin 0]\<rparr>"
proof (intro conjI impI)
  assume "valid_image img"
  then show "threshold triangle img ''binary'' inverted threshValue =
        Inr \<lparr>shape = [shape img ! 0, shape img ! 1, 1], dtype = int32,
             vals = map (\<lambda>g. if (if inverted
                                   then num_lessEqual (conv float32 (dtype (grayscale_of img)) g)
                                          (num_mul (to_f32 threshValue) (Fin 255))
                                   else num_greater (conv float32 (dtype (grayscale_of img)) g)
                                          (num_mul (to_f32 threshValue) (Fin 255)))
                              then Fin 255 else Fin 0)
                      (vals (grayscale_of img))\<rparr>"
    by (rule threshold_accepted) (simp_all add: select_threshold_binary)
next
  show "threshold triangle example_image ''binary'' False (Fin (1 / 2)) =
     Inr \<lparr>shape = [2, 2, 1], dtype = int32, vals = [Fin 0, Fin 255, Fin 255, Fin 0]\<rparr>"
    by (simp add: example_binary)
qed

text \<open>The same image, inverted: \<^verbatim>\<open>[[255,0],[0,255]]\<close>. And a pixel of
  \<open>127.50001525878906\<close> with \<open>threshValue = 0.5 + 2^-24\<close>: the float32 product is the
  value of the pixel, which is therefore not greater.\<close>

theorem binary_threshold_witness:
  "valid_image example_image \<and>
   threshold triangle0 example_image ''binary'' True (Fin (1 / 2)) =
     Inr \<lparr>shape = [2, 2, 1], dtype = int32, vals = [Fin 255, Fin 0, Fin 0, Fin 255]\<rparr> \<and>
   valid_image \<lparr>shape = [1, 1, 1], dtype = float32, vals = [Fin (8355841 / 65536)]\<rparr> \<and>
   num_mul (to_f32 (Fin (8388609 / 16777216))) (Fin 255) = Fin (8355841 / 65536) \<and>
   threshold triangle0 \<lparr>shape = [1, 1, 1], dtype = float32, vals = [Fin (8355841 / 65536)]\<rparr>
       ''binary'' False (Fin (8388609 / 16777216)) =
     Inr \<lparr>shape = [1, 1, 1], dtype = int32, vals = [Fin 0]\<rparr>"
proof -
  let ?px = "\<lparr>shape = [1, 1, 1], dtype = float32, vals = [Fin (8355841 / 65536)]\<rparr>"
  have vp: "valid_image ?px" by (simp add: valid_image_def extent_def)
  have gp: "grayscale_of ?px = ?px" by (simp add: grayscale_of_def extent_def)
  from binary_threshold[of example_image triangle0 True "Fin (1 / 2)"] valid_example
  have "threshold triangle0 example_image ''binary'' True (Fin (1 / 2)) =
        Inr \<lparr>shape = [shape example_image ! 0, shape example_image ! 1, 1], dtype = int32,
             vals = map (\<lambda>g. if (if True
                                   then num_lessEqual
                                          (conv float32 (dtype (grayscale_of example_image)) g)
                                          (num_mul (to_f32 (Fin (1 / 2))) (Fin 255))
                                   else num_greater
                                          (conv float32 (dtype (grayscale_of example_image)) g)
                                          (num_mul (to_f32 (Fin (1 / 2))) (Fin 255)))
                              then Fin 255 else Fin 0)
                      (vals (grayscale_of example_image))\<rparr>"
    by blast
  then have a: "threshold triangle0 example_image ''binary'' True (Fin (1 / 2)) =
     Inr \<lparr>shape = [2, 2, 1], dtype = int32, vals = [Fin 255, Fin 0, Fin 0, Fin 255]\<rparr>"
    unfolding gray_example half_255 by (simp add: example_image_def conv_def)
  from binary_threshold[of ?px triangle0 False "Fin (8388609 / 16777216)"] vp
  have "threshold triangle0 ?px ''binary'' False (Fin (8388609 / 16777216)) =
        Inr \<lparr>shape = [shape ?px ! 0, shape ?px ! 1, 1], dtype = int32,
             vals = map (\<lambda>g. if (if False
                                   then num_lessEqual (conv float32 (dtype (grayscale_of ?px)) g)
                                          (num_mul (to_f32 (Fin (8388609 / 16777216))) (Fin 255))
                                   else num_greater (conv float32 (dtype (grayscale_of ?px)) g)
                                          (num_mul (to_f32 (Fin (8388609 / 16777216))) (Fin 255)))
                              then Fin 255 else Fin 0)
                      (vals (grayscale_of ?px))\<rparr>"
    by blast
  then have b: "threshold triangle0 ?px ''binary'' False (Fin (8388609 / 16777216)) =
     Inr \<lparr>shape = [1, 1, 1], dtype = int32, vals = [Fin 0]\<rparr>"
    unfolding gp margin_255 by (simp add: conv_def)
  from valid_example a vp margin_255 b show ?thesis by blast
qed

text \<open>
  C4, as the code has it. A comparison with \<open>NaN\<close> is false in both directions, so a
  \<open>NaN\<close> threshold (a \<open>NaN\<close> \<open>threshValue\<close> with method \<open>binary\<close>) or a \<open>NaN\<close> pixel
  gives 0 with and without inversion: the two results are equal, not complementary. And
  with method \<open>otsu\<close> an image with a negative pixel makes the histogram fail, so that
  neither call returns an array.
\<close>

theorem inversion_counterexample:
  "threshold triangle0 example_image ''binary'' True NaN =
     Inr \<lparr>shape = [2, 2, 1], dtype = int32, vals = [Fin 0, Fin 0, Fin 0, Fin 0]\<rparr> \<and>
   threshold triangle0 example_image ''binary'' False NaN =
     Inr \<lparr>shape = [2, 2, 1], dtype = int32, vals = [Fin 0, Fin 0, Fin 0, Fin 0]\<rparr> \<and>
   \<not> inversion_law triangle0 example_image ''binary'' NaN \<and>
   valid_image nan_image \<and>
   threshold triangle0 nan_image ''binary'' True (Fin (1 / 2)) =
     Inr \<lparr>shape = [1, 1, 1], dtype = int32, vals = [Fin 0]\<rparr> \<and>
   threshold triangle0 nan_image ''binary'' False (Fin (1 / 2)) =
     Inr \<lparr>shape = [1, 1, 1], dtype = int32, vals = [Fin 0]\<rparr> \<and>
   \<not> inversion_law triangle0 nan_image ''binary'' (Fin (1 / 2)) \<and>
   valid_image negative_image \<and>
   threshold triangle0 negative_image ''otsu'' True (Fin (1 / 2)) = Inl NegativeInput \<and>
   threshold triangle0 negative_image ''otsu'' False (Fin (1 / 2)) = Inl NegativeInput \<and>
   \<not> inversion_law triangle0 negative_image ''otsu'' (Fin (1 / 2))"
proof -
  have a: "threshold triangle0 example_image ''binary'' inv NaN =
     Inr \<lparr>shape = [2, 2, 1], dtype = int32, vals = [Fin 0, Fin 0, Fin 0, Fin 0]\<rparr>" for inv
    unfolding threshold_accepted[OF valid_example _ select_threshold_binary, simplified]
      gray_example NaN_255
    by (simp add: example_image_def conv_def)
  have b: "threshold triangle0 nan_image ''binary'' inv (Fin (1 / 2)) =
     Inr \<lparr>shape = [1, 1, 1], dtype = int32, vals = [Fin 0]\<rparr>" for inv
    unfolding threshold_accepted[OF valid_nan _ select_threshold_binary, simplified]
      gray_nan half_255
    by (simp add: nan_image_def conv_def)
  show ?thesis
    unfolding inversion_law_def a b negative_otsu
    using valid_nan valid_negative by (simp add: complement255_def)
qed

text \<open>
  C4, amended: for every valid image and accepted method, when the plain call returns an
  array, no grayscale pixel is \<open>NaN\<close> and, with method \<open>binary\<close>, \<open>threshValue\<close> is not
  \<open>NaN\<close>, the inverted call returns that array with 0 and 255 exchanged.
\<close>

theorem inversion_without_nan:
  assumes v: "valid_image img"
    and m: "method = ''otsu'' \<or> (method = ''binary'' \<and> threshValue \<noteq> NaN)"
    and g: "NaN \<notin> set (vals (grayscale_of img))"
    and r: "threshold triangle img method False threshValue = Inr b"
  shows "threshold triangle img method True threshValue =
           Inr (b\<lparr>vals := map complement255 (vals b)\<rparr>) \<and>
         inversion_law triangle img method threshValue"
proof -
  from m have m': "method = ''otsu'' \<or> method = ''binary''" by blast
  from threshold_cases[OF v m', of triangle threshValue False] r
  obtain t where t: "select_threshold triangle img method threshValue = Inr (vec1 t)"
    by auto
  from threshold_not_nan[OF m t] have tn: "t \<noteq> NaN" .
  let ?c = "conv float32 (dtype (grayscale_of img))"
  have "map complement255
          (map (\<lambda>g. if num_greater (?c g) t then Fin 255 else Fin 0) (vals (grayscale_of img))) =
        map (\<lambda>g. if num_lessEqual (?c g) t then Fin 255 else Fin 0) (vals (grayscale_of img))"
    unfolding map_map o_def
  proof (rule map_cong[OF refl])
    fix x assume "x \<in> set (vals (grayscale_of img))"
    with g have "x \<noteq> NaN" by blast
    then have "?c x \<noteq> NaN" by (rule conv_not_NaN)
    then show "complement255 (if num_greater (?c x) t then Fin 255 else Fin 0) =
               (if num_lessEqual (?c x) t then Fin 255 else Fin 0)"
      using tn by (rule complement_comparison)
  qed
  then have e: "threshold triangle img method True threshValue =
           Inr (b\<lparr>vals := map complement255 (vals b)\<rparr>)"
    using r unfolding threshold_accepted[OF v m' t] by auto
  with r have "inversion_law triangle img method threshValue"
    by (simp add: inversion_law_def)
  with e show ?thesis ..
qed

text \<open>The example image, with both methods.\<close>

theorem inversion_without_nan_witness:
  "valid_image example_image \<and>
   NaN \<notin> set (vals (grayscale_of example_image)) \<and>
   threshold triangle0 example_image ''binary'' False (Fin (1 / 2)) =
     Inr \<lparr>shape = [2, 2, 1], dtype = int32, vals = [Fin 0, Fin 255, Fin 255, Fin 0]\<rparr> \<and>
   threshold triangle0 example_image ''binary'' True (Fin (1 / 2)) =
     Inr \<lparr>shape = [2, 2, 1], dtype = int32, vals = [Fin 255, Fin 0, Fin 0, Fin 255]\<rparr> \<and>
   inversion_law triangle0 example_image ''binary'' (Fin (1 / 2)) \<and>
   (\<exists>b. threshold triangle0 example_image ''otsu'' False (Fin (1 / 2)) = Inr b) \<and>
   inversion_law triangle0 example_image ''otsu'' (Fin (1 / 2))"
proof -
  let ?b = "\<lparr>shape = [2, 2, 1], dtype = int32, vals = [Fin 0, Fin 255, Fin 255, Fin 0]\<rparr>"
  have n: "NaN \<notin> set (vals (grayscale_of example_image))"
    unfolding gray_example by (simp add: example_image_def)
  have p: "threshold triangle0 example_image ''binary'' False (Fin (1 / 2)) = Inr ?b"
    by (simp add: example_binary)
  have mb: "''binary'' = ''otsu'' \<or> (''binary'' = ''binary'' \<and> Fin (1 / 2) \<noteq> NaN)" by simp
  from inversion_without_nan[OF valid_example mb n p]
  have a: "threshold triangle0 example_image ''binary'' True (Fin (1 / 2)) =
     Inr \<lparr>shape = [2, 2, 1], dtype = int32, vals = [Fin 255, Fin 0, Fin 0, Fin 255]\<rparr>"
    and a': "inversion_law triangle0 example_image ''binary'' (Fin (1 / 2))"
    by (simp_all add: complement255_def)
  from example_otsu[of triangle0 False "Fin (1 / 2)"] obtain b where
    q: "threshold triangle0 example_image ''otsu'' False (Fin (1 / 2)) = Inr b" ..
  have mo: "''otsu'' = ''otsu'' \<or> (''otsu'' = ''binary'' \<and> Fin (1 / 2) \<noteq> NaN)" by simp
  from inversion_without_nan[OF valid_example mo n q]
  have c: "inversion_law triangle0 example_image ''otsu'' (Fin (1 / 2))" by blast
  from q have q': "\<exists>b. threshold triangle0 example_image ''otsu'' False (Fin (1 / 2)) = Inr b" ..
  from valid_example n p a a' q' c show ?thesis by blast
qed

text \<open>
  C5, as the code has it. The running best starts at threshold -1 and variance 0 and only
  a strictly greater variance replaces it. For the histogram of an image of one intensity
  every split has an empty class, every variance is \<open>NaN\<close>, and the search returns -1,
  which is no split index.
\<close>

theorem otsu_optimal_counterexample:
  "histogram_of constant_image = Inr constant_histogram \<and>
   tsize constant_histogram = 256 \<and>
   totalPixelsInImage constant_image = Fin 4 \<and>
   otsu constant_histogram (Fin 4) = vec1 (Fin (- 1)) \<and>
   \<not> otsu_optimal constant_histogram (Fin 4)"
proof -
  have "of_nat t \<noteq> (- 1 :: rat)" for t :: nat
    using of_nat_0_le_iff[of t, where ?'a = rat] by linarith
  then have "\<not> otsu_optimal constant_histogram (Fin 4)"
    unfolding otsu_optimal_def constant_histogram_otsu by (simp add: vec1_def eq_commute)
  then show ?thesis
    by (simp add: constant_image_histogram constant_total constant_histogram_otsu)
      (simp add: tsize_def constant_histogram_def)
qed

text \<open>
  C5, amended: for every floating-point histogram of at most \<open>2^24\<close> buckets and every
  pixel count, the search returns -1 when no candidate split has a between-class variance
  greater than 0; otherwise it returns a candidate split index whose variance is greater
  than 0, such that no candidate has a strictly greater variance and every earlier
  candidate has a strictly smaller variance or \<open>NaN\<close> (the earliest maximum, since only a
  strict comparison updates the running best). The variances are the values the code
  computes in float32, and the value it computes at an index is the one of the
  specification's formula, every operation of the formula being the float32 one and the
  product taken as \<open>((weightForeground * weightBackground) * d) * d\<close> for the difference
  \<open>d\<close> of the means.
\<close>

theorem otsu_earliest_maximum:
  assumes "dtype histogram = float32" and "tsize histogram \<le> 2 ^ 24"
  shows "\<exists>r. otsu histogram totalPx = vec1 r \<and>
     ((r = Fin (- 1) \<and>
       (\<forall>s<tsize histogram - 1.
          \<not> num_greater (spec_betweenClassVariance (vals histogram) totalPx s) (Fin 0))) \<or>
      (\<exists>t<tsize histogram - 1.
         r = Fin (of_nat t) \<and>
         num_greater (spec_betweenClassVariance (vals histogram) totalPx t) (Fin 0) \<and>
         (\<forall>s<tsize histogram - 1.
            \<not> num_greater (spec_betweenClassVariance (vals histogram) totalPx s)
                           (spec_betweenClassVariance (vals histogram) totalPx t)) \<and>
         (\<forall>s<t. num_greater (spec_betweenClassVariance (vals histogram) totalPx t)
                             (spec_betweenClassVariance (vals histogram) totalPx s) \<or>
                spec_betweenClassVariance (vals histogram) totalPx s = NaN))) \<and>
   cInBetVar histogram totalPx index =
     scalar0 (spec_betweenClassVariance (vals histogram) totalPx index)"
proof -
  note f = assms(1) and n = assms(2)
  let ?v = "spec_betweenClassVariance (vals histogram) totalPx"
  from otsu_result[OF f, of totalPx] obtain t b where
    r: "otsu histogram totalPx = vec1 t"
    and inv: "otsu_inv (vals histogram) totalPx (tsize histogram - 1) t b"
    by (elim exE conjE)
  from inv have
    "(t = Fin (- 1) \<and> (\<forall>s<tsize histogram - 1. \<not> num_greater (?v s) (Fin 0))) \<or>
      (\<exists>k<tsize histogram - 1.
         t = to_f32 (Fin (of_nat k)) \<and> num_greater (?v k) (Fin 0) \<and>
         (\<forall>s<tsize histogram - 1. \<not> num_greater (?v s) (?v k)) \<and>
         (\<forall>s<k. num_greater (?v k) (?v s) \<or> ?v s = NaN))"
    unfolding otsu_inv_def by blast
  then have
    "(t = Fin (- 1) \<and> (\<forall>s<tsize histogram - 1. \<not> num_greater (?v s) (Fin 0))) \<or>
      (\<exists>k<tsize histogram - 1.
         t = Fin (of_nat k) \<and> num_greater (?v k) (Fin 0) \<and>
         (\<forall>s<tsize histogram - 1. \<not> num_greater (?v s) (?v k)) \<and>
         (\<forall>s<k. num_greater (?v k) (?v s) \<or> ?v s = NaN))"
  proof (elim disjE exE conjE)
    assume "t = Fin (- 1)" "\<forall>s<tsize histogram - 1. \<not> num_greater (?v s) (Fin 0)"
    then show ?thesis by blast
  next
    fix k
    assume k: "k < tsize histogram - 1" and t: "t = to_f32 (Fin (of_nat k))"
      and p: "num_greater (?v k) (Fin 0)"
      and mx: "\<forall>s<tsize histogram - 1. \<not> num_greater (?v s) (?v k)"
      and first: "\<forall>s<k. num_greater (?v k) (?v s) \<or> ?v s = NaN"
    from k n have "k < 2 ^ 24" by linarith
    from to_f32_nat[OF this] t have "t = Fin (of_nat k)" by simp
    with k p mx first show ?thesis by blast
  qed
  with r show ?thesis using cInBetVar_scalar[OF f] by blast
qed

text \<open>Five buckets with an empty first one and a tie between the splits 1 and 2: the
  earlier one is returned. And four buckets where the variances of the splits 1 and 2 are
  both \<open>1/3\<close> before rounding and differ in float32: the later one is the greater and is
  returned.\<close>

theorem otsu_earliest_maximum_witness:
  "dtype small_histogram = float32 \<and> tsize small_histogram - 1 = 4 \<and>
   map (spec_betweenClassVariance (vals small_histogram) (Fin 4)) [0, 1, 2, 3] =
     [NaN, Fin (4281685 / 4194304), Fin (4281685 / 4194304), Fin (4369067 / 8388608)] \<and>
   otsu small_histogram (Fin 4) = vec1 (Fin 1) \<and>
   dtype rounded_histogram = float32 \<and> tsize rounded_histogram - 1 = 3 \<and>
   map (spec_betweenClassVariance (vals rounded_histogram) (Fin 4)) [0, 1, 2] =
     [NaN, Fin (11184809 / 33554432), Fin (11184811 / 33554432)] \<and>
   otsu rounded_histogram (Fin 4) = vec1 (Fin 2)"
proof -
  let ?v = "spec_betweenClassVariance (vals small_histogram) (Fin 4)"
  let ?w = "spec_betweenClassVariance (vals rounded_histogram) (Fin 4)"
  have f: "dtype small_histogram = float32" by (simp add: small_histogram_def)
  have n: "tsize small_histogram - 1 = 4" by (simp add: tsize_def small_histogram_def)
  have le: "tsize small_histogram \<le> 2 ^ 24" by (simp add: tsize_def small_histogram_def)
  from otsu_earliest_maximum[OF f le, of "Fin 4" 0] obtain r where
    r: "otsu small_histogram (Fin 4) = vec1 r"
    and c: "(r = Fin (- 1) \<and> (\<forall>s<4. \<not> num_greater (?v s) (Fin 0))) \<or>
      (\<exists>t<4. r = Fin (of_nat t) \<and> num_greater (?v t) (Fin 0) \<and>
         (\<forall>s<4. \<not> num_greater (?v s) (?v t)) \<and>
         (\<forall>s<t. num_greater (?v t) (?v s) \<or> ?v s = NaN))"
    unfolding n by blast
  have "r = Fin 1"
    using c
  proof
    assume "r = Fin (- 1) \<and> (\<forall>s<4. \<not> num_greater (?v s) (Fin 0))"
    then have "\<not> num_greater (?v 1) (Fin 0)" by simp
    then show ?thesis unfolding small_variances by simp
  next
    assume "\<exists>t<4. r = Fin (of_nat t) \<and> num_greater (?v t) (Fin 0) \<and>
         (\<forall>s<4. \<not> num_greater (?v s) (?v t)) \<and>
         (\<forall>s<t. num_greater (?v t) (?v s) \<or> ?v s = NaN)"
    then obtain t where t: "t < 4" and rt: "r = Fin (of_nat t)"
      and pos: "num_greater (?v t) (Fin 0)"
      and mx: "\<forall>s<4. \<not> num_greater (?v s) (?v t)"
      and first: "\<forall>s<t. num_greater (?v t) (?v s) \<or> ?v s = NaN"
      by blast
    from t have "t = 0 \<or> t = 1 \<or> t = 2 \<or> t = 3" by arith
    then show ?thesis
    proof (elim disjE)
      assume "t = 0"
      with pos have "num_greater (?v 0) (Fin 0)" by simp
      then show ?thesis unfolding small_variances by simp
    next
      assume "t = 1"
      with rt show ?thesis by simp
    next
      assume t2: "t = 2"
      with first have "num_greater (?v 2) (?v 1) \<or> ?v 1 = NaN" by simp
      then show ?thesis unfolding small_variances by simp
    next
      assume t3: "t = 3"
      from mx t3 have "\<not> num_greater (?v 1) (?v 3)" by simp
      then show ?thesis unfolding small_variances by simp
    qed
  qed
  with r have small: "otsu small_histogram (Fin 4) = vec1 (Fin 1)" by simp
  have f': "dtype rounded_histogram = float32" by (simp add: rounded_histogram_def)
  have n': "tsize rounded_histogram - 1 = 3" by (simp add: tsize_def rounded_histogram_def)
  have le': "tsize rounded_histogram \<le> 2 ^ 24" by (simp add: tsize_def rounded_histogram_def)
  from otsu_earliest_maximum[OF f' le', of "Fin 4" 0] obtain r' where
    r': "otsu rounded_histogram (Fin 4) = vec1 r'"
    and c': "(r' = Fin (- 1) \<and> (\<forall>s<3. \<not> num_greater (?w s) (Fin 0))) \<or>
      (\<exists>t<3. r' = Fin (of_nat t) \<and> num_greater (?w t) (Fin 0) \<and>
         (\<forall>s<3. \<not> num_greater (?w s) (?w t)) \<and>
         (\<forall>s<t. num_greater (?w t) (?w s) \<or> ?w s = NaN))"
    unfolding n' by blast
  have "r' = Fin 2"
    using c'
  proof
    assume "r' = Fin (- 1) \<and> (\<forall>s<3. \<not> num_greater (?w s) (Fin 0))"
    then have "\<not> num_greater (?w 1) (Fin 0)" by simp
    then show ?thesis unfolding rounded_variances by simp
  next
    assume "\<exists>t<3. r' = Fin (of_nat t) \<and> num_greater (?w t) (Fin 0) \<and>
         (\<forall>s<3. \<not> num_greater (?w s) (?w t)) \<and>
         (\<forall>s<t. num_greater (?w t) (?w s) \<or> ?w s = NaN)"
    then obtain t where t: "t < 3" and rt: "r' = Fin (of_nat t)"
      and pos: "num_greater (?w t) (Fin 0)"
      and mx: "\<forall>s<3. \<not> num_greater (?w s) (?w t)"
      by blast
    from t have "t = 0 \<or> t = 1 \<or> t = 2" by arith
    then show ?thesis
    proof (elim disjE)
      assume "t = 0"
      with pos have "num_greater (?w 0) (Fin 0)" by simp
      then show ?thesis unfolding rounded_variances by simp
    next
      assume t1: "t = 1"
      from mx t1 have "\<not> num_greater (?w 2) (?w 1)" by simp
      then show ?thesis unfolding rounded_variances by simp
    next
      assume "t = 2"
      with rt show ?thesis by simp
    qed
  qed
  with r' have rounded: "otsu rounded_histogram (Fin 4) = vec1 (Fin 2)" by simp
  have sv: "map ?v [0, 1, 2, 3] =
     [NaN, Fin (4281685 / 4194304), Fin (4281685 / 4194304), Fin (4369067 / 8388608)]"
    unfolding list.map small_variances ..
  have rv: "map ?w [0, 1, 2] = [NaN, Fin (11184809 / 33554432), Fin (11184811 / 33554432)]"
    unfolding list.map rounded_variances ..
  from f n sv small f' n' rv rounded show ?thesis by blast
qed

text \<open>
  C6. The grayscale image of a one-channel image is the image itself; that of a
  well-formed three-channel image has, at every pixel, the value
  \<open>R * 0.2989 + G * 0.5870 + B * 0.1140\<close> of the pixel's three values. The numbers are
  the float32 ones of the array library: a coefficient is the float32 nearest the
  JavaScript number, an integer pixel is converted to float32, and each product and each
  sum is rounded to float32, the sum being taken from the left.
\<close>

theorem channel_reduction:
  "(extent (shape img) 2 = Some 1 \<longrightarrow> grayscale_of img = img) \<and>
   (shape img = [h, w, 3] \<and> wf_tensor img \<longrightarrow>
      grayscale_of img =
        \<lparr>shape = [h, w, 1], dtype = float32,
         vals = map (\<lambda>p. num_add
                       (num_add
                          (num_mul (conv float32 (dtype img) (vals img ! (p * 3)))
                             (to_f32 (to_f64 (Fin (2989 / 10000)))))
                          (num_mul (conv float32 (dtype img) (vals img ! (p * 3 + 1)))
                             (to_f32 (to_f64 (Fin (5870 / 10000))))))
                       (num_mul (conv float32 (dtype img) (vals img ! (p * 3 + 2)))
                          (to_f32 (to_f64 (Fin (1140 / 10000))))))
                  [0..<h * w]\<rparr>)"
proof (intro conjI impI)
  assume "extent (shape img) 2 = Some 1"
  then show "grayscale_of img = img" by (simp add: grayscale_one_channel)
next
  assume "shape img = [h, w, 3] \<and> wf_tensor img"
  then have s: "shape img = [h, w, 3]" and wf: "wf_tensor img" by auto
  show "grayscale_of img =
        \<lparr>shape = [h, w, 1], dtype = float32,
         vals = map (\<lambda>p. num_add
                       (num_add
                          (num_mul (conv float32 (dtype img) (vals img ! (p * 3)))
                             (to_f32 (to_f64 (Fin (2989 / 10000)))))
                          (num_mul (conv float32 (dtype img) (vals img ! (p * 3 + 1)))
                             (to_f32 (to_f64 (Fin (5870 / 10000))))))
                       (num_mul (conv float32 (dtype img) (vals img ! (p * 3 + 2)))
                          (to_f32 (to_f64 (Fin (1140 / 10000))))))
                  [0..<h * w]\<rparr>"
    using grayscale_three_channels[OF s wf]
    unfolding RED_INTENCITY_COEF_def GREEN_INTENCITY_COEF_def BLUE_INTENCITY_COEF_def .
qed

text \<open>A one-channel and a three-channel image. The two grayscale values of the second
  are \<open>198.54058837890625\<close> and \<open>29.395700454711914\<close>.\<close>

theorem channel_reduction_witness:
  "extent (shape example_image) 2 = Some 1 \<and> grayscale_of example_image = example_image \<and>
   shape rgb_image = [1, 2, 3] \<and> wf_tensor rgb_image \<and>
   to_f32 (to_f64 (Fin (2989 / 10000))) = Fin (2507355 / 8388608) \<and>
   to_f32 (to_f64 (Fin (5870 / 10000))) = Fin (4924113 / 8388608) \<and>
   to_f32 (to_f64 (Fin (1140 / 10000))) = Fin (15300821 / 134217728) \<and>
   grayscale_of rgb_image =
     \<lparr>shape = [1, 2, 1], dtype = float32,
      vals = [Fin (3252889 / 16384), Fin (15411813 / 524288)]\<rparr>"
proof -
  have u: "[0..<2] = [0, 1]" by (simp add: upt_rec)
  have a: "extent (shape example_image) 2 = Some 1" by (simp add: example_image_def extent_def)
  have s: "shape rgb_image = [1, 2, 3]" and wf: "wf_tensor rgb_image"
    by (simp_all add: rgb_image_def wf_tensor_def)
  have k: "to_f32 (to_f64 (Fin (2989 / 10000))) = Fin (2507355 / 8388608)"
    "to_f32 (to_f64 (Fin (5870 / 10000))) = Fin (4924113 / 8388608)"
    "to_f32 (to_f64 (Fin (1140 / 10000))) = Fin (15300821 / 134217728)"
    by (simp_all add: float_eval)
  from channel_reduction[of example_image] a
  have b: "grayscale_of example_image = example_image" by blast
  from channel_reduction[of rgb_image 1 2] s wf
  have "grayscale_of rgb_image =
        \<lparr>shape = [1, 2, 1], dtype = float32,
         vals = map (\<lambda>p. num_add
                       (num_add
                          (num_mul (conv float32 (dtype rgb_image) (vals rgb_image ! (p * 3)))
                             (to_f32 (to_f64 (Fin (2989 / 10000)))))
                          (num_mul (conv float32 (dtype rgb_image) (vals rgb_image ! (p * 3 + 1)))
                             (to_f32 (to_f64 (Fin (5870 / 10000))))))
                       (num_mul (conv float32 (dtype rgb_image) (vals rgb_image ! (p * 3 + 2)))
                          (to_f32 (to_f64 (Fin (1140 / 10000))))))
                  [0..<1 * 2]\<rparr>" by blast
  then have c: "grayscale_of rgb_image =
     \<lparr>shape = [1, 2, 1], dtype = float32,
      vals = [Fin (3252889 / 16384), Fin (15411813 / 524288)]\<rparr>"
    unfolding k by (simp add: u rgb_image_def conv_def float_eval)
  from a b s wf k c show ?thesis by blast
qed




text \<open>
  C8, as the code has it. With method \<open>binary\<close> the threshold is \<open>threshValue * 255\<close>,
  which is 510 for \<open>threshValue = 2\<close>; with method \<open>otsu\<close> it is -1 for an image of one
  intensity.
\<close>

theorem threshold_range_counterexample:
  "validate example_image ''binary'' = Inr () \<and>
   select_threshold triangle0 example_image ''binary'' (Fin 2) = Inr (vec1 (Fin 510)) \<and>
   \<not> threshold_in_range (vec1 (Fin 510)) \<and>
   validate constant_image ''otsu'' = Inr () \<and>
   select_threshold triangle0 constant_image ''otsu'' (Fin (1 / 2)) = Inr (vec1 (Fin (- 1))) \<and>
   \<not> threshold_in_range (vec1 (Fin (- 1)))"
  unfolding constant_image_otsu select_threshold_binary two_255
  using valid_example valid_constant
  by (simp add: validate_valid threshold_in_range_def vec1_def)

text \<open>
  C8, amended: for every input accepted by validation, with method \<open>binary\<close> the
  threshold is the float32 product \<open>threshValue * 255\<close>, which lies in [0,255] when
  \<open>threshValue\<close> lies in [0,1]; with method \<open>otsu\<close> a threshold that is selected is an
  integer from -1 to 254.
\<close>

theorem threshold_range:
  assumes "validate img method = Inr ()"
  shows "(method = ''binary'' \<longrightarrow>
            select_threshold triangle img method threshValue =
              Inr (vec1 (num_mul (to_f32 threshValue) (Fin 255))) \<and>
            (\<forall>q. threshValue = Fin q \<and> 0 \<le> q \<and> q \<le> 1 \<longrightarrow>
                 threshold_in_range (vec1 (num_mul (to_f32 threshValue) (Fin 255))))) \<and>
         (method = ''otsu'' \<longrightarrow>
            (\<forall>t. select_threshold triangle img method threshValue = Inr t \<longrightarrow>
                 (\<exists>k::int. - 1 \<le> k \<and> k \<le> 254 \<and> t = vec1 (Fin (of_int k)))))"
proof (intro conjI impI allI)
  assume "method = ''binary''"
  then show "select_threshold triangle img method threshValue =
              Inr (vec1 (num_mul (to_f32 threshValue) (Fin 255)))"
    by (simp add: select_threshold_binary)
next
  fix q
  assume "threshValue = Fin q \<and> 0 \<le> q \<and> q \<le> 1"
  then have v: "threshValue = Fin q" and q0: "0 \<le> q" and q1: "q \<le> of_nat 1" by simp_all
  from f32_bounded[OF q0 q1] obtain r where
    r: "f32 q = Fin r" and r0: "0 \<le> r" and r1: "r \<le> 1" by auto
  from r0 r1 have p0: "0 \<le> r * 255" and p1: "r * 255 \<le> of_nat 255" by simp_all
  from f32_bounded[OF p0 p1] obtain r' where
    r': "f32 (r * 255) = Fin r'" and b: "0 \<le> r'" "r' \<le> 255" by auto
  have "num_mul (to_f32 threshValue) (Fin 255) = Fin r'"
    by (simp add: v r num_mul_def r')
  with b show "threshold_in_range (vec1 (num_mul (to_f32 threshValue) (Fin 255)))"
    by (simp add: threshold_in_range_def vec1_def)
next
  fix t
  assume m: "method = ''otsu''"
    and s: "select_threshold triangle img method threshValue = Inr t"
  from select_threshold_otsu[of triangle img threshValue] s m obtain t' where
    t: "t = vec1 t'" and c: "t' = Fin (- 1) \<or> (\<exists>k<255. t' = Fin (of_nat k))" by auto
  from c have "\<exists>k::int. - 1 \<le> k \<and> k \<le> 254 \<and> t' = Fin (of_int k)"
  proof
    assume "t' = Fin (- 1)"
    then have "- 1 \<le> (- 1::int) \<and> (- 1::int) \<le> 254 \<and> t' = Fin (of_int (- 1))" by simp
    then show ?thesis by blast
  next
    assume "\<exists>k<255. t' = Fin (of_nat k)"
    then obtain k :: nat where "k < 255" and "t' = Fin (of_nat k)" by blast
    then have "- 1 \<le> int k \<and> int k \<le> 254 \<and> t' = Fin (of_int (int k))" by simp
    then show ?thesis by blast
  qed
  with t show "\<exists>k::int. - 1 \<le> k \<and> k \<le> 254 \<and> t = vec1 (Fin (of_int k))" by blast
qed

text \<open>The example image with \<open>binary\<close>, the image of one intensity with \<open>otsu\<close>.\<close>

theorem threshold_range_witness:
  "validate example_image ''binary'' = Inr () \<and>
   select_threshold triangle0 example_image ''binary'' (Fin (1 / 2)) =
     Inr (vec1 (Fin (255 / 2))) \<and>
   threshold_in_range (vec1 (Fin (255 / 2))) \<and>
   validate constant_image ''otsu'' = Inr () \<and>
   select_threshold triangle0 constant_image ''otsu'' (Fin (1 / 2)) = Inr (vec1 (Fin (- 1))) \<and>
   (\<exists>k::int. - 1 \<le> k \<and> k \<le> 254 \<and> vec1 (Fin (- 1)) = vec1 (Fin (of_int k)))"
proof -
  have a: "validate example_image ''binary'' = Inr ()"
    using valid_example by (simp add: validate_valid)
  have b: "validate constant_image ''otsu'' = Inr ()"
    using valid_constant by (simp add: validate_valid)
  from threshold_range[OF a, of triangle0 "Fin (1 / 2)"]
  have c0: "select_threshold triangle0 example_image ''binary'' (Fin (1 / 2)) =
             Inr (vec1 (num_mul (to_f32 (Fin (1 / 2))) (Fin 255)))"
    and all: "\<forall>q. Fin (1 / 2) = Fin q \<and> 0 \<le> q \<and> q \<le> 1 \<longrightarrow>
       threshold_in_range (vec1 (num_mul (to_f32 (Fin (1 / 2))) (Fin 255)))"
    by blast+
  from c0 have c: "select_threshold triangle0 example_image ''binary'' (Fin (1 / 2)) =
             Inr (vec1 (Fin (255 / 2)))"
    unfolding half_255 .
  from all have "Fin (1 / 2) = Fin (1 / 2) \<and> (0::rat) \<le> 1 / 2 \<and> (1 / 2::rat) \<le> 1 \<longrightarrow>
       threshold_in_range (vec1 (num_mul (to_f32 (Fin (1 / 2))) (Fin 255)))"
    by (rule spec)
  then have d: "threshold_in_range (vec1 (Fin (255 / 2)))"
    unfolding half_255 by simp
  have s: "select_threshold triangle0 constant_image ''otsu'' (Fin (1 / 2)) =
           Inr (vec1 (Fin (- 1)))"
    by (rule constant_image_otsu)
  from threshold_range[OF b, of triangle0 "Fin (1 / 2)"] s
  have e: "\<exists>k::int. - 1 \<le> k \<and> k \<le> 254 \<and> vec1 (Fin (- 1)) = vec1 (Fin (of_int k))"
    by blast
  from a b c d s e show ?thesis by blast
qed

text \<open>
  C9. The branch for method \<open>triangle\<close> is never taken: a call that passes validation
  has a method other than \<open>triangle\<close>, and neither the threshold nor the result of any
  call depends on what \<open>triangle\<close> computes.
\<close>

theorem triangle_unreachable:
  "threshold triangle img method inverted threshValue =
     threshold triangle' img method inverted threshValue \<and>
   (validate img method = Inr () \<longrightarrow>
      method \<noteq> ''triangle'' \<and>
      select_threshold triangle img method threshValue =
        select_threshold triangle' img method threshValue)"
proof -
  have s: "select_threshold triangle img method threshValue =
           select_threshold triangle' img method threshValue"
    if "validate img method = Inr ()"
    using that by (auto simp: validate_Inr select_threshold_def)
  have "threshold triangle img method inverted threshValue =
        threshold triangle' img method inverted threshValue"
  proof (cases "validate img method")
    case (Inl e)
    then show ?thesis by (simp add: threshold_def threshold_run_def)
  next
    case (Inr u)
    then show ?thesis using s by (simp add: threshold_def threshold_run_def)
  qed
  moreover have "method \<noteq> ''triangle''" if "validate img method = Inr ()"
    using that by (auto simp: validate_Inr)
  ultimately show ?thesis using s by blast
qed

text \<open>Two different functions in the place of \<open>triangle\<close>.\<close>

theorem triangle_unreachable_witness:
  "validate example_image ''binary'' = Inr () \<and>
   triangle0 (tf_tensor1d []) \<noteq> triangle1 (tf_tensor1d []) \<and>
   threshold triangle0 example_image ''binary'' False (Fin (1 / 2)) =
     threshold triangle1 example_image ''binary'' False (Fin (1 / 2)) \<and>
   select_threshold triangle0 example_image ''binary'' (Fin (1 / 2)) =
     select_threshold triangle1 example_image ''binary'' (Fin (1 / 2)) \<and>
   threshold triangle0 example_image ''triangle'' False (Fin (1 / 2)) =
     threshold triangle1 example_image ''triangle'' False (Fin (1 / 2))"
  using triangle_unreachable[of triangle0 example_image "''binary''" False "Fin (1 / 2)" triangle1]
    triangle_unreachable[of triangle0 example_image "''triangle''" False "Fin (1 / 2)" triangle1]
  by (simp add: validate_def example_image_def extent_def triangle0_def triangle1_def
      vec1_def)

text \<open>
  C10. \<open>threshValue\<close> is not validated: whether a call fails, and with what error, does
  not depend on \<open>threshValue\<close>; with method \<open>binary\<close> a valid image gives a result for
  every \<open>threshValue\<close> and the threshold is the float32 product \<open>threshValue * 255\<close>
  whatever the value; and \<open>threshValue = 2\<close> compares every grayscale pixel with 510.
\<close>

theorem threshValue_not_validated:
  "(threshold triangle img method inverted threshValue = Inl e \<longleftrightarrow>
    threshold triangle img method inverted threshValue' = Inl e) \<and>
   (valid_image img \<longrightarrow>
      (\<exists>out. threshold triangle img ''binary'' inverted threshValue = Inr out)) \<and>
   select_threshold triangle img ''binary'' threshValue =
     Inr (vec1 (num_mul (to_f32 threshValue) (Fin 255))) \<and>
   (valid_image img \<longrightarrow>
      threshold triangle img ''binary'' inverted (Fin 2) =
        Inr \<lparr>shape = [shape img ! 0, shape img ! 1, 1], dtype = int32,
             vals = map (\<lambda>g. if (if inverted
                                   then num_lessEqual (conv float32 (dtype (grayscale_of img)) g)
                                          (Fin 510)
                                   else num_greater (conv float32 (dtype (grayscale_of img)) g)
                                          (Fin 510))
                              then Fin 255 else Fin 0)
                      (vals (grayscale_of img))\<rparr>)"
proof (intro conjI impI)
  show "threshold triangle img method inverted threshValue = Inl e \<longleftrightarrow>
        threshold triangle img method inverted threshValue' = Inl e"
    by (rule threshold_error_independent)
next
  assume v: "valid_image img"
  have "threshold triangle img ''binary'' inverted threshValue =
        Inr \<lparr>shape = [shape img ! 0, shape img ! 1, 1], dtype = int32,
             vals = map (\<lambda>g. if (if inverted
                                   then num_lessEqual (conv float32 (dtype (grayscale_of img)) g)
                                          (num_mul (to_f32 threshValue) (Fin 255))
                                   else num_greater (conv float32 (dtype (grayscale_of img)) g)
                                          (num_mul (to_f32 threshValue) (Fin 255)))
                              then Fin 255 else Fin 0)
                      (vals (grayscale_of img))\<rparr>"
    by (rule threshold_accepted[OF v _ select_threshold_binary]) simp
  then show "\<exists>out. threshold triangle img ''binary'' inverted threshValue = Inr out" ..
next
  show "select_threshold triangle img ''binary'' threshValue =
     Inr (vec1 (num_mul (to_f32 threshValue) (Fin 255)))"
    by (rule select_threshold_binary)
next
  assume v: "valid_image img"
  have t: "select_threshold triangle img ''binary'' (Fin 2) = Inr (vec1 (Fin 510))"
    unfolding select_threshold_binary two_255 ..
  show "threshold triangle img ''binary'' inverted (Fin 2) =
        Inr \<lparr>shape = [shape img ! 0, shape img ! 1, 1], dtype = int32,
             vals = map (\<lambda>g. if (if inverted
                                   then num_lessEqual (conv float32 (dtype (grayscale_of img)) g)
                                          (Fin 510)
                                   else num_greater (conv float32 (dtype (grayscale_of img)) g)
                                          (Fin 510))
                              then Fin 255 else Fin 0)
                      (vals (grayscale_of img))\<rparr>"
    by (rule threshold_accepted[OF v _ t]) simp
qed

text \<open>\<open>threshValue = -1\<close>, \<open>threshValue = 2\<close> and \<open>threshValue = 2^127\<close>, whose product
  with 255 is infinite in float32, on the example image; and the image with a negative
  pixel, which fails with method \<open>otsu\<close> for \<open>threshValue = 2\<close> as it does for
  \<open>threshValue = 0.5\<close>.\<close>

theorem threshValue_not_validated_witness:
  "valid_image example_image \<and>
   select_threshold triangle0 example_image ''binary'' (Fin (- 1)) = Inr (vec1 (Fin (- 255))) \<and>
   threshold triangle0 example_image ''binary'' False (Fin (- 1)) =
     Inr \<lparr>shape = [2, 2, 1], dtype = int32, vals = [Fin 255, Fin 255, Fin 255, Fin 255]\<rparr> \<and>
   threshold triangle0 example_image ''binary'' False (Fin 2) =
     Inr \<lparr>shape = [2, 2, 1], dtype = int32, vals = [Fin 0, Fin 0, Fin 0, Fin 0]\<rparr> \<and>
   select_threshold triangle0 example_image ''binary'' (Fin (2 ^ 127)) = Inr (vec1 PInf) \<and>
   (\<exists>out. threshold triangle0 example_image ''binary'' False (Fin (2 ^ 127)) = Inr out) \<and>
   threshold triangle0 negative_image ''otsu'' False (Fin (1 / 2)) = Inl NegativeInput \<and>
   threshold triangle0 negative_image ''otsu'' False (Fin 2) = Inl NegativeInput"
proof -
  have t: "select_threshold triangle0 example_image ''binary'' (Fin (- 1)) =
           Inr (vec1 (Fin (- 255)))"
    using threshValue_not_validated[of triangle0 example_image "''binary''" False "Fin (- 1)"]
    unfolding minus_255 by blast
  have a: "threshold triangle0 example_image ''binary'' False (Fin (- 1)) =
     Inr \<lparr>shape = [2, 2, 1], dtype = int32, vals = [Fin 255, Fin 255, Fin 255, Fin 255]\<rparr>"
    unfolding threshold_accepted[OF valid_example _ t, simplified] gray_example
    by (simp add: example_image_def conv_def)
  from threshValue_not_validated[of triangle0 example_image "''binary''" False "Fin 2"] valid_example
  have "threshold triangle0 example_image ''binary'' False (Fin 2) =
        Inr \<lparr>shape = [shape example_image ! 0, shape example_image ! 1, 1], dtype = int32,
             vals = map (\<lambda>g. if (if False
                                   then num_lessEqual
                                          (conv float32 (dtype (grayscale_of example_image)) g)
                                          (Fin 510)
                                   else num_greater
                                          (conv float32 (dtype (grayscale_of example_image)) g)
                                          (Fin 510))
                              then Fin 255 else Fin 0)
                      (vals (grayscale_of example_image))\<rparr>"
    by blast
  then have b: "threshold triangle0 example_image ''binary'' False (Fin 2) =
     Inr \<lparr>shape = [2, 2, 1], dtype = int32, vals = [Fin 0, Fin 0, Fin 0, Fin 0]\<rparr>"
    unfolding gray_example by (simp add: example_image_def conv_def)
  have c: "select_threshold triangle0 example_image ''binary'' (Fin (2 ^ 127)) =
           Inr (vec1 PInf)"
    using threshValue_not_validated[of triangle0 example_image "''binary''" False "Fin (2 ^ 127)"]
    unfolding huge_255 by blast
  from threshValue_not_validated[of triangle0 example_image "''binary''" False "Fin (2 ^ 127)"] valid_example
  have d: "\<exists>out. threshold triangle0 example_image ''binary'' False (Fin (2 ^ 127)) = Inr out"
    by blast
  have e: "threshold triangle0 negative_image ''otsu'' False (Fin (1 / 2)) = Inl NegativeInput"
    by (rule negative_otsu)
  from threshValue_not_validated[of triangle0 negative_image "''otsu''" False "Fin (1 / 2)" NegativeInput "Fin 2"] e
  have f: "threshold triangle0 negative_image ''otsu'' False (Fin 2) = Inl NegativeInput"
    by blast
  from valid_example t a b c d e f show ?thesis by blast
qed

end
